theory Spec2Isabelle
  imports Main
begin

section \<open>JavaScript values read off the board\<close>

text \<open>
  \<^verbatim>\<open>server.js\<close> indexes the board with whatever the client sent:
  \<^verbatim>\<open>room.board[layer][row][col]\<close>. JavaScript turns each of the three values into a
  property key. \<open>KInt i\<close> is a key whose string is the decimal form of the integer \<open>i\<close>
  (the JSON number \<^verbatim>\<open>1\<close>, the string \<^verbatim>\<open>"1"\<close>); \<open>KName n\<close> is any other key, by
  its string (\<^verbatim>\<open>"constructor"\<close>, \<^verbatim>\<open>"map"\<close>, \<^verbatim>\<open>"1.5"\<close> for a fraction,
  \<^verbatim>\<open>"undefined"\<close> for a missing field, \<^verbatim>\<open>"null"\<close>, \<^verbatim>\<open>"true"\<close>).
\<close>

datatype key = KInt int | KName string

text \<open>
  The values such a read can yield. \<open>Obj\<close> is a function or another object of the
  JavaScript engine (\<^verbatim>\<open>Array\<close>, \<^verbatim>\<open>Array.prototype.map\<close>, \<^verbatim>\<open>Function.prototype\<close>), by
  its identity.
\<close>

datatype jsval =
    Undefined
  | Null
  | Str string
  | Num int
  | Arr "jsval list"
  | Obj nat

datatype exn = TypeError

text \<open>
  The built-in objects are not part of \<^verbatim>\<open>server.js\<close>; the engine that runs it provides
  them. An engine says what a named property reads as on an array, on a string, on a
  number and on each of its own objects (a read can throw: an accessor may), and whether
  the assignment \<^verbatim>\<open>board[layer][row][col] = symbol\<close> throws when its target is not an
  element of the board (the script is not in strict mode, so an assignment to a
  property that is not writable is dropped without an error).
\<close>

record engine =
  arrayProp :: "string \<Rightarrow> exn + jsval"
  stringProp :: "string \<Rightarrow> exn + jsval"
  numberProp :: "string \<Rightarrow> exn + jsval"
  objectProp :: "nat \<Rightarrow> string \<Rightarrow> exn + jsval"
  assignThrows :: "key \<Rightarrow> key \<Rightarrow> key \<Rightarrow> bool"

text \<open>Element \<open>i\<close> of an array or string; out of range reads \<^verbatim>\<open>undefined\<close>.\<close>

definition elemAt :: "'a list \<Rightarrow> int \<Rightarrow> ('a \<Rightarrow> jsval) \<Rightarrow> jsval" where
  "elemAt xs i f = (if 0 \<le> i \<and> i < int (length xs) then f (xs ! nat i) else Undefined)"

text \<open>
  \<^verbatim>\<open>v[i]\<close> for an integer key. Reading a property of \<^verbatim>\<open>undefined\<close> or \<^verbatim>\<open>null\<close>
  throws a \<^verbatim>\<open>TypeError\<close>. An array or a string has the elements of its own; no
  built-in object and no prototype has a property named by an integer.
\<close>

fun getIndex :: "jsval \<Rightarrow> int \<Rightarrow> exn + jsval" where
  "getIndex Undefined i = Inl TypeError"
| "getIndex Null i = Inl TypeError"
| "getIndex (Str s) i = Inr (elemAt s i (\<lambda>c. Str [c]))"
| "getIndex (Num n) i = Inr Undefined"
| "getIndex (Arr xs) i = Inr (elemAt xs i (\<lambda>v. v))"
| "getIndex (Obj obj) i = Inr Undefined"

text \<open>
  \<^verbatim>\<open>v[n]\<close> for any other key. \<^verbatim>\<open>length\<close> is an own property of arrays and strings;
  every other name is resolved by the engine.
\<close>

fun getName :: "engine \<Rightarrow> jsval \<Rightarrow> string \<Rightarrow> exn + jsval" where
  "getName E Undefined n = Inl TypeError"
| "getName E Null n = Inl TypeError"
| "getName E (Str s) n = (if n = ''length'' then Inr (Num (int (length s))) else stringProp E n)"
| "getName E (Num x) n = numberProp E n"
| "getName E (Arr xs) n = (if n = ''length'' then Inr (Num (int (length xs))) else arrayProp E n)"
| "getName E (Obj obj) n = objectProp E obj n"

definition getProp :: "engine \<Rightarrow> jsval \<Rightarrow> key \<Rightarrow> exn + jsval" where
  "getProp E v k = (case k of KInt i \<Rightarrow> getIndex v i | KName n \<Rightarrow> getName E v n)"

section \<open>Board model\<close>

type_synonym symbol = string
type_synonym board = "string list list list"
type_synonym coord = "nat \<times> nat \<times> nat"

text \<open>The board as the JavaScript value it is: an array of arrays of arrays of strings.\<close>

definition jsBoard :: "board \<Rightarrow> jsval" where
  "jsBoard b = Arr (map (\<lambda>layer. Arr (map (\<lambda>row. Arr (map Str row)) layer)) b)"

text \<open>\<^verbatim>\<open>board[layer][row][col]\<close>, evaluated left to right.\<close>

definition readCell :: "engine \<Rightarrow> board \<Rightarrow> key \<Rightarrow> key \<Rightarrow> key \<Rightarrow> exn + jsval" where
  "readCell E b layer row col =
     (case getProp E (jsBoard b) layer of
        Inl e \<Rightarrow> Inl e
      | Inr v1 \<Rightarrow>
          (case getProp E v1 row of
             Inl e \<Rightarrow> Inl e
           | Inr v2 \<Rightarrow> getProp E v2 col))"

text \<open>The same read with three integers, as \<^verbatim>\<open>checkWin\<close> does it.\<close>

definition readElement :: "board \<Rightarrow> int \<Rightarrow> int \<Rightarrow> int \<Rightarrow> exn + jsval" where
  "readElement b layer row col =
     (case getIndex (jsBoard b) layer of
        Inl e \<Rightarrow> Inl e
      | Inr v1 \<Rightarrow>
          (case getIndex v1 row of
             Inl e \<Rightarrow> Inl e
           | Inr v2 \<Rightarrow> getIndex v2 col))"

text \<open>\<^verbatim>\<open>Array(3).fill().map(() => Array(3).fill().map(() => Array(3).fill('')))\<close>\<close>

definition emptyBoard :: board where
  "emptyBoard = replicate 3 (replicate 3 (replicate 3 ''''))"

definition wf_board :: "board \<Rightarrow> bool" where
  "wf_board b =
     (length b = 3 \<and> list_all (\<lambda>layer. length layer = 3 \<and> list_all (\<lambda>row. length row = 3) layer) b)"

definition inGrid :: "key \<Rightarrow> bool" where
  "inGrid k = (case k of KInt i \<Rightarrow> 0 \<le> i \<and> i < 3 | KName n \<Rightarrow> False)"

subsection \<open>The table of winning lines\<close>

definition layerRows :: "coord list list" where
  "layerRows = concat (map (\<lambda>layer. map (\<lambda>row. [(layer, row, 0), (layer, row, 1), (layer, row, 2)]) [0..<3]) [0..<3])"

definition layerCols :: "coord list list" where
  "layerCols = concat (map (\<lambda>layer. map (\<lambda>col. [(layer, 0, col), (layer, 1, col), (layer, 2, col)]) [0..<3]) [0..<3])"

definition layerDiags :: "coord list list" where
  "layerDiags = concat (map (\<lambda>layer.
      [ [(layer, 0, 0), (layer, 1, 1), (layer, 2, 2)],
       [(layer, 0, 2), (layer, 1, 1), (layer, 2, 0)]]) [0..<3])"

definition verticals :: "coord list list" where
  "verticals = concat (map (\<lambda>row. map (\<lambda>col. [(0, row, col), (1, row, col), (2, row, col)]) [0..<3]) [0..<3])"

definition crossDiagsByCol :: "coord list list" where
  "crossDiagsByCol = concat (map (\<lambda>col.
      [ [(0, 0, col), (1, 1, col), (2, 2, col)],
       [(0, 2, col), (1, 1, col), (2, 0, col)]]) [0..<3])"

definition crossDiagsByRow :: "coord list list" where
  "crossDiagsByRow = concat (map (\<lambda>row.
      [ [(0, row, 0), (1, row, 1), (2, row, 2)],
       [(0, row, 2), (1, row, 1), (2, row, 0)]]) [0..<3])"

definition spaceDiags :: "coord list list" where
  "spaceDiags =
     [ [(0, 0, 0), (1, 1, 1), (2, 2, 2)],
      [(0, 0, 2), (1, 1, 1), (2, 2, 0)],
      [(0, 2, 0), (1, 1, 1), (2, 0, 2)],
      [(0, 2, 2), (1, 1, 1), (2, 0, 0)]]"

definition winningCombinations :: "coord list list" where
  "winningCombinations =
     layerRows @ layerCols @ layerDiags @ verticals @ crossDiagsByCol @ crossDiagsByRow @ spaceDiags"

subsection \<open>checkWin and checkDraw\<close>

record winResult =
  winner :: symbol
  winningCells :: "coord list"

text \<open>\<^verbatim>\<open>combination.map(([layer, row, col]) => board[layer][row][col])\<close>\<close>

fun lineValues :: "board \<Rightarrow> coord list \<Rightarrow> exn + jsval list" where
  "lineValues b [] = Inr []"
| "lineValues b ((layer, row, col) # rest) =
     (case readElement b (int layer) (int row) (int col) of
        Inl e \<Rightarrow> Inl e
      | Inr v \<Rightarrow> (case lineValues b rest of Inl e \<Rightarrow> Inl e | Inr vs \<Rightarrow> Inr (v # vs)))"

text \<open>The scanning loop of \<^verbatim>\<open>checkWin\<close>: the first matching combination returns.\<close>

fun scanCombinations :: "board \<Rightarrow> symbol \<Rightarrow> coord list list \<Rightarrow> exn + winResult option" where
  "scanCombinations b player [] = Inr None"
| "scanCombinations b player (combination # rest) =
     (case lineValues b combination of
        Inl e \<Rightarrow> Inl e
      | Inr vals \<Rightarrow>
          if list_all (\<lambda>val. val = Str player \<and> val \<noteq> Str '''') vals
          then Inr (Some \<lparr>winner = player, winningCells = combination\<rparr>)
          else scanCombinations b player rest)"

definition checkWin :: "board \<Rightarrow> symbol \<Rightarrow> exn + winResult option" where
  "checkWin b player = scanCombinations b player winningCombinations"

definition checkDraw :: "board \<Rightarrow> bool" where
  "checkDraw b = list_all (\<lambda>layer. list_all (\<lambda>row. list_all (\<lambda>cell. cell \<noteq> '''') row) layer) b"

subsection \<open>The assignment to a cell\<close>

text \<open>
  The element of the board that \<^verbatim>\<open>board[layer][row][col]\<close> denotes, when the three keys
  are indices of the board, of that layer and of that row; no element otherwise.
\<close>

definition cellIndex :: "board \<Rightarrow> key \<Rightarrow> key \<Rightarrow> key \<Rightarrow> coord option" where
  "cellIndex b layer row col =
     (case (layer, row, col) of
        (KInt l, KInt r, KInt c) \<Rightarrow>
          if 0 \<le> l \<and> l < int (length b)
             \<and> 0 \<le> r \<and> r < int (length (b ! nat l))
             \<and> 0 \<le> c \<and> c < int (length (b ! nat l ! nat r))
          then Some (nat l, nat r, nat c) else None
      | _ \<Rightarrow> None)"

text \<open>
  \<^verbatim>\<open>board[l][r][c] = mark\<close> for an element that exists. It is used on the element that
  \<open>cellIndex\<close> found, and on cells of the 3 by 3 by 3 grid.
\<close>

definition setCell :: "board \<Rightarrow> nat \<Rightarrow> nat \<Rightarrow> nat \<Rightarrow> symbol \<Rightarrow> board" where
  "setCell b l r c mark = b[l := (b ! l)[r := (b ! l ! r)[c := mark]]]"

section \<open>Rooms, players and the two registries\<close>

type_synonym socket = nat

text \<open>
  A player object \<^verbatim>\<open>{ ws, symbol, roomCode }\<close>. \<open>pref\<close> is the identity of the object:
  \<^verbatim>\<open>broadcastToRoom\<close> compares players with \<^verbatim>\<open>!==\<close>.
\<close>

record player =
  pref :: nat
  ws :: socket
  symbol :: symbol
  roomCode :: string

record room =
  code :: string
  players :: "player list"
  board :: board
  currentPlayer :: symbol
  gameStarted :: bool
  gameEnded :: bool

datatype outmsg =
    RoomJoined string symbol
  | PlayerJoined symbol
  | GameStart symbol
  | MoveMade key key key symbol symbol
  | GameOver "symbol option" "coord list option"
  | PlayerLeft symbol
  | ChatOut symbol string
  | ErrorMsg string

type_synonym sends = "(socket \<times> outmsg) list"

text \<open>
  The server's state: the two global maps, the callbacks handed to
  \<^verbatim>\<open>setTimeout\<close> that have not run yet (each holds the room code and the message it
  will broadcast; all have the same delay, so they run in the order they were
  scheduled), and the next fresh object identity.
\<close>

record state =
  rooms :: "string \<rightharpoonup> room"
  playerConnections :: "socket \<rightharpoonup> player"
  timers :: "(string \<times> outmsg) list"
  nextRef :: nat

definition initState :: state where
  "initState = \<lparr>rooms = Map.empty, playerConnections = Map.empty, timers = [], nextRef = 0\<rparr>"

definition OPEN :: nat where
  "OPEN = 1"

text \<open>
  \<open>rs\<close> gives each socket's \<^verbatim>\<open>readyState\<close> at the time of the call; it belongs to the
  transport, not to the server's state.
\<close>

definition broadcastToRoom :: "(socket \<Rightarrow> nat) \<Rightarrow> state \<Rightarrow> string \<Rightarrow> outmsg \<Rightarrow> player option \<Rightarrow> sends" where
  "broadcastToRoom rs s rc message excludePlayer =
     (case rooms s rc of
        None \<Rightarrow> []
      | Some room \<Rightarrow>
          map (\<lambda>p. (ws p, message))
            (filter (\<lambda>p. (case excludePlayer of None \<Rightarrow> True | Some e \<Rightarrow> pref p \<noteq> pref e)
                          \<and> rs (ws p) = OPEN)
               (players room)))"

definition sendToPlayer :: "(socket \<Rightarrow> nat) \<Rightarrow> player \<Rightarrow> outmsg \<Rightarrow> sends" where
  "sendToPlayer rs p message = (if rs (ws p) = OPEN then [(ws p, message)] else [])"

section \<open>Inbound messages\<close>

text \<open>
  A parsed message by its \<^verbatim>\<open>type\<close>. \<open>JoinRoom\<close> carries \<^verbatim>\<open>message.roomCode\<close> when it
  is a string and \<open>None\<close> otherwise (the registry's keys are strings, so no other
  value is ever found in it). \<open>UnknownType\<close> is any other \<^verbatim>\<open>type\<close>. \<open>Malformed\<close> is
  data for which \<^verbatim>\<open>JSON.parse\<close> throws, or which parses to \<^verbatim>\<open>null\<close>, so that
  \<^verbatim>\<open>message.type\<close> throws.
\<close>

datatype inmsg =
    JoinRoom "string option"
  | MakeMove key key key
  | NewGame
  | LeaveRoom
  | ChatMessage string
  | UnknownType

datatype payload = Malformed | Parsed inmsg

text \<open>
  How a handler ends: it returns, or it throws and the \<^verbatim>\<open>catch\<close> block of the listener
  takes over. Only \<^verbatim>\<open>handleMakeMove\<close> has expressions that can throw.
\<close>

datatype completion = Returned | Thrown

section \<open>Handlers\<close>

definition newRoom :: "string \<Rightarrow> room" where
  "newRoom rc =
     \<lparr>code = rc, players = [], board = emptyBoard, currentPlayer = ''X'',
      gameStarted = False, gameEnded = False\<rparr>"

text \<open>The part of \<^verbatim>\<open>handleJoinRoom\<close> after the room has been found or created.\<close>

definition addPlayer :: "(socket \<Rightarrow> nat) \<Rightarrow> socket \<Rightarrow> string \<Rightarrow> room \<Rightarrow> state \<Rightarrow> state \<times> sends" where
  "addPlayer rs conn rc room s =
     (let playerSymbol = (if length (players room) = 0 then ''X'' else ''O'');
          player = \<lparr>pref = nextRef s, ws = conn, symbol = playerSymbol, roomCode = rc\<rparr>;
          room1 = room\<lparr>players := players room @ [player]\<rparr>;
          s1 = s\<lparr>rooms := (rooms s)(rc \<mapsto> room1),
                 playerConnections := (playerConnections s)(conn \<mapsto> player),
                 nextRef := Suc (nextRef s)\<rparr>;
          out1 = [(conn, RoomJoined rc playerSymbol)];
          out2 = broadcastToRoom rs s1 rc (PlayerJoined playerSymbol) (Some player)
      in if length (players room1) = 2
         then (let room2 = room1\<lparr>gameStarted := True\<rparr>;
                   s2 = s1\<lparr>rooms := (rooms s1)(rc \<mapsto> room2)\<rparr>
               in (s2, out1 @ out2 @ broadcastToRoom rs s2 rc (GameStart (currentPlayer room2)) None))
         else (s1, out1 @ out2))"

text \<open>
  \<open>gen\<close> is the value \<^verbatim>\<open>generateRoomCode()\<close> returns when it is called
  (\<^verbatim>\<open>Math.random\<close> is not a function of the state).
\<close>

definition handleJoinRoom :: "(socket \<Rightarrow> nat) \<Rightarrow> socket \<Rightarrow> string option \<Rightarrow> string \<Rightarrow> state \<Rightarrow> state \<times> sends" where
  "handleJoinRoom rs conn msgCode gen s =
     (case (case msgCode of
              Some rc \<Rightarrow> (if rc \<noteq> '''' then map_option (\<lambda>room. (rc, room)) (rooms s rc) else None)
            | None \<Rightarrow> None) of
        Some (rc, room) \<Rightarrow>
          if length (players room) \<ge> 2
          then (s, [(conn, ErrorMsg ''Room is full'')])
          else addPlayer rs conn rc room s
      | None \<Rightarrow>
          (let room = newRoom gen
           in addPlayer rs conn gen room (s\<lparr>rooms := (rooms s)(gen \<mapsto> room)\<rparr>)))"

text \<open>
  \<^verbatim>\<open>handleMakeMove\<close> from \<^verbatim>\<open>// Check for win\<close> on; \<open>room1\<close> is the room after the
  assignment.
\<close>

definition finishMove :: "(socket \<Rightarrow> nat) \<Rightarrow> key \<Rightarrow> key \<Rightarrow> key \<Rightarrow> player \<Rightarrow> room \<Rightarrow> state \<Rightarrow> state \<times> sends \<times> completion" where
  "finishMove rs layer row col player room1 s =
     (let s1 = s\<lparr>rooms := (rooms s)(roomCode player \<mapsto> room1)\<rparr>
      in case checkWin (board room1) (symbol player) of
           Inl e \<Rightarrow> (s1, [], Thrown)
         | Inr winResult \<Rightarrow>
             (let isDraw = (winResult = None \<and> checkDraw (board room1))
              in if winResult \<noteq> None \<or> isDraw
                 then
                   (let room2 = room1\<lparr>gameEnded := True\<rparr>;
                        s2 = s1\<lparr>rooms := (rooms s1)(roomCode player \<mapsto> room2)\<rparr>;
                        out = broadcastToRoom rs s2 (roomCode player)
                                (MoveMade layer row col (symbol player) (currentPlayer room2)) None;
                        s3 = s2\<lparr>timers := timers s2 @
                                [(roomCode player,
                                  GameOver (map_option winner winResult)
                                           (map_option winningCells winResult))]\<rparr>
                    in (s3, out, Returned))
                 else
                   (let room2 = room1\<lparr>currentPlayer := (if currentPlayer room1 = ''X'' then ''O'' else ''X'')\<rparr>;
                        s2 = s1\<lparr>rooms := (rooms s1)(roomCode player \<mapsto> room2)\<rparr>
                    in (s2,
                        broadcastToRoom rs s2 (roomCode player)
                          (MoveMade layer row col (symbol player) (currentPlayer room2)) None,
                        Returned))))"

text \<open>
  The assignment runs after the same three keys read the empty string. Its target is an
  element of the board when \<open>cellIndex\<close> finds one. Otherwise the empty string came out
  of the engine's tables and the assignment is to a property that the engine keeps: it
  throws, or the elements of the board are as they were. (A property that is not
  writable, as \<^verbatim>\<open>Function.prototype.name\<close>, drops the assignment; a writable one is
  stored on the engine's side, and a later read goes through the engine of that later
  step.)
\<close>

definition handleMakeMove :: "engine \<Rightarrow> (socket \<Rightarrow> nat) \<Rightarrow> socket \<Rightarrow> key \<Rightarrow> key \<Rightarrow> key \<Rightarrow> state \<Rightarrow> state \<times> sends \<times> completion" where
  "handleMakeMove E rs conn layer row col s =
     (case playerConnections s conn of
        None \<Rightarrow> (s, [], Returned)
      | Some player \<Rightarrow>
          (case rooms s (roomCode player) of
             None \<Rightarrow> (s, [(conn, ErrorMsg ''Game not active'')], Returned)
           | Some room \<Rightarrow>
               if \<not> gameStarted room \<or> gameEnded room
               then (s, [(conn, ErrorMsg ''Game not active'')], Returned)
               else if currentPlayer room \<noteq> symbol player
               then (s, [(conn, ErrorMsg ''Not your turn'')], Returned)
               else
                 (case readCell E (board room) layer row col of
                    Inl e \<Rightarrow> (s, [], Thrown)
                  | Inr v \<Rightarrow>
                      if v \<noteq> Str ''''
                      then (s, [(conn, ErrorMsg ''Cell already taken'')], Returned)
                      else
                        (case cellIndex (board room) layer row col of
                           Some (l, r, c) \<Rightarrow>
                             finishMove rs layer row col player
                               (room\<lparr>board := setCell (board room) l r c (symbol player)\<rparr>) s
                         | None \<Rightarrow>
                             if assignThrows E layer row col then (s, [], Thrown)
                             else finishMove rs layer row col player room s))))"

definition handleNewGame :: "(socket \<Rightarrow> nat) \<Rightarrow> socket \<Rightarrow> state \<Rightarrow> state \<times> sends" where
  "handleNewGame rs conn s =
     (case playerConnections s conn of
        None \<Rightarrow> (s, [])
      | Some player \<Rightarrow>
          (case rooms s (roomCode player) of
             None \<Rightarrow> (s, [])
           | Some room \<Rightarrow>
               if length (players room) < 2 then (s, [])
               else
                 (let room1 = room\<lparr>board := emptyBoard, currentPlayer := ''X'',
                                   gameEnded := False, gameStarted := True\<rparr>;
                      s1 = s\<lparr>rooms := (rooms s)(roomCode player \<mapsto> room1)\<rparr>
                  in (s1, broadcastToRoom rs s1 (roomCode player) (GameStart (currentPlayer room1)) None))))"

definition handleChatMessage :: "(socket \<Rightarrow> nat) \<Rightarrow> socket \<Rightarrow> string \<Rightarrow> state \<Rightarrow> state \<times> sends" where
  "handleChatMessage rs conn body s =
     (case playerConnections s conn of
        None \<Rightarrow> (s, [])
      | Some player \<Rightarrow>
          (s, broadcastToRoom rs s (roomCode player) (ChatOut (symbol player) body) None))"

definition handleDisconnect :: "(socket \<Rightarrow> nat) \<Rightarrow> socket \<Rightarrow> state \<Rightarrow> state \<times> sends" where
  "handleDisconnect rs conn s =
     (case playerConnections s conn of
        None \<Rightarrow> (s, [])
      | Some player \<Rightarrow>
          (case rooms s (roomCode player) of
             None \<Rightarrow> (s\<lparr>playerConnections := (playerConnections s)(conn := None)\<rparr>, [])
           | Some room \<Rightarrow>
               (let room1 = room\<lparr>players := filter (\<lambda>p. ws p \<noteq> conn) (players room)\<rparr>;
                    s1 = s\<lparr>rooms := (rooms s)(roomCode player \<mapsto> room1)\<rparr>;
                    out = broadcastToRoom rs s1 (roomCode player) (PlayerLeft (symbol player)) None;
                    s2 = (if length (players room1) = 0
                          then s1\<lparr>rooms := (rooms s1)(roomCode player := None)\<rparr>
                          else s1\<lparr>rooms := (rooms s1)(roomCode player \<mapsto>
                                      room1\<lparr>gameStarted := False, gameEnded := False\<rparr>)\<rparr>)
                in (s2\<lparr>playerConnections := (playerConnections s2)(conn := None)\<rparr>, out))))"

definition handleLeaveRoom :: "(socket \<Rightarrow> nat) \<Rightarrow> socket \<Rightarrow> state \<Rightarrow> state \<times> sends" where
  "handleLeaveRoom rs conn s = handleDisconnect rs conn s"

definition handleMessage :: "engine \<Rightarrow> (socket \<Rightarrow> nat) \<Rightarrow> socket \<Rightarrow> inmsg \<Rightarrow> string \<Rightarrow> state \<Rightarrow> state \<times> sends \<times> completion" where
  "handleMessage E rs conn message gen s =
     (case message of
        JoinRoom msgCode \<Rightarrow> (case handleJoinRoom rs conn msgCode gen s of (s', out) \<Rightarrow> (s', out, Returned))
      | MakeMove layer row col \<Rightarrow> handleMakeMove E rs conn layer row col s
      | NewGame \<Rightarrow> (case handleNewGame rs conn s of (s', out) \<Rightarrow> (s', out, Returned))
      | LeaveRoom \<Rightarrow> (case handleLeaveRoom rs conn s of (s', out) \<Rightarrow> (s', out, Returned))
      | ChatMessage body \<Rightarrow> (case handleChatMessage rs conn body s of (s', out) \<Rightarrow> (s', out, Returned))
      | UnknownType \<Rightarrow> (s, [(conn, ErrorMsg ''Unknown message type'')], Returned))"

text \<open>
  The \<^verbatim>\<open>'message'\<close> listener: whatever the handler had done when it threw stays done,
  and the \<^verbatim>\<open>catch\<close> block replies to the sender.
\<close>

definition onMessage :: "engine \<Rightarrow> (socket \<Rightarrow> nat) \<Rightarrow> socket \<Rightarrow> payload \<Rightarrow> string \<Rightarrow> state \<Rightarrow> state \<times> sends" where
  "onMessage E rs conn data gen s =
     (case data of
        Malformed \<Rightarrow> (s, [(conn, ErrorMsg ''Invalid message format'')])
      | Parsed message \<Rightarrow>
          (case handleMessage E rs conn message gen s of
             (s', out, Returned) \<Rightarrow> (s', out)
           | (s', out, Thrown) \<Rightarrow> (s', out @ [(conn, ErrorMsg ''Invalid message format'')])))"

definition onClose :: "(socket \<Rightarrow> nat) \<Rightarrow> socket \<Rightarrow> state \<Rightarrow> state \<times> sends" where
  "onClose rs conn s = handleDisconnect rs conn s"

text \<open>The oldest pending \<^verbatim>\<open>setTimeout\<close> callback runs.\<close>

definition fireTimer :: "(socket \<Rightarrow> nat) \<Rightarrow> state \<Rightarrow> state \<times> sends" where
  "fireTimer rs s =
     (case timers s of
        [] \<Rightarrow> (s, [])
      | (rc, message) # rest \<Rightarrow> (s\<lparr>timers := rest\<rparr>, broadcastToRoom rs s rc message None))"

section \<open>The event loop\<close>

text \<open>
  One event is handled to completion before the next. \<open>E\<close> and \<open>rs\<close> are the engine's
  built-ins and the sockets' states at the time of the event; neither is the server's to
  keep, so a reachable state is one reached under any of them.
\<close>

datatype event = Message socket payload string | Close socket | Timeout

definition step :: "engine \<Rightarrow> (socket \<Rightarrow> nat) \<Rightarrow> event \<Rightarrow> state \<Rightarrow> state \<times> sends" where
  "step E rs ev s =
     (case ev of
        Message conn data gen \<Rightarrow> onMessage E rs conn data gen s
      | Close conn \<Rightarrow> onClose rs conn s
      | Timeout \<Rightarrow> fireTimer rs s)"

inductive reachable :: "state \<Rightarrow> bool" where
  reachable_init: "reachable initState"
| reachable_step: "reachable s \<Longrightarrow> reachable (fst (step E rs ev s))"

section \<open>Vocabulary of the properties\<close>

text \<open>A coordinate of the 3 by 3 by 3 grid, and the cell a board holds there.\<close>

definition coordInGrid :: "coord \<Rightarrow> bool" where
  "coordInGrid x = (case x of (l, r, c) \<Rightarrow> l < 3 \<and> r < 3 \<and> c < 3)"

definition cellAt :: "board \<Rightarrow> coord \<Rightarrow> string" where
  "cellAt b x = (case x of (l, r, c) \<Rightarrow> b ! l ! r ! c)"

text \<open>All cells of a line hold the symbol \<open>p\<close>, and are not empty.\<close>

definition ownsLine :: "board \<Rightarrow> symbol \<Rightarrow> coord list \<Rightarrow> bool" where
  "ownsLine b p line = list_all (\<lambda>(l, r, c). b ! l ! r ! c = p \<and> b ! l ! r ! c \<noteq> '''') line"

text \<open>Writing the symbol \<open>p\<close> to the given cells, one assignment after the other.\<close>

definition placeAll :: "board \<Rightarrow> symbol \<Rightarrow> coord list \<Rightarrow> board" where
  "placeAll b p cells =
     foldl (\<lambda>b' (l, r, c). setCell b' l r c p) b cells"

text \<open>The 27 cells of the grid, and a board that has no empty cell among them.\<close>

definition allCells :: "coord list" where
  "allCells = concat (map (\<lambda>l. concat (map (\<lambda>r. map (\<lambda>c. (l, r, c)) [0..<3]) [0..<3])) [0..<3])"

definition boardFull :: "board \<Rightarrow> bool" where
  "boardFull b = list_all (\<lambda>x. cellAt b x \<noteq> '''') allCells"

text \<open>
  An engine with four of the built-ins: object 10 is \<^verbatim>\<open>Array\<close>, object 11 is
  \<^verbatim>\<open>Array.prototype\<close>, object 12 is \<^verbatim>\<open>Function.prototype\<close> and object 13 is
  \<^verbatim>\<open>Array.prototype.map\<close>; an assignment never throws.
\<close>

definition exEngine :: engine where
  "exEngine =
     \<lparr>arrayProp = (\<lambda>n. Inr (if n = ''constructor'' then Obj 10 else if n = ''__proto__'' then Obj 11
                               else if n = ''map'' then Obj 13 else Undefined)),
      stringProp = (\<lambda>n. Inr Undefined),
      numberProp = (\<lambda>n. Inr Undefined),
      objectProp = (\<lambda>obj n.
         Inr (if (obj = 10 \<or> obj = 13) \<and> n = ''__proto__'' then Obj 12
              else if obj = 10 \<and> n = ''name'' then Str ''Array''
              else if obj = 13 \<and> n = ''name'' then Str ''map''
              else if obj = 12 \<and> n = ''name'' then Str ''''
              else Undefined)),
      assignThrows = (\<lambda>layer row col. False)\<rparr>"

text \<open>A position in which X holds two cells of the first row of layer 0.\<close>

definition exBoard :: board where
  "exBoard =
     [ [ ['''', ''X'', ''X''], ['''', '''', ''''], ['''', '''', '''']],
      [ ['''', '''', ''''], ['''', ''O'', ''''], ['''', '''', '''']],
      [ ['''', '''', ''''], ['''', '''', ''''], [''O'', '''', '''']]]"

text \<open>
  A room in mid-game: sockets 10 and 20 play X and O on \<open>exBoard\<close> in room ABC123, and it is
  X's turn. Every socket is open.
\<close>

definition exPlayerX :: player where
  "exPlayerX = \<lparr>pref = 0, ws = 10, symbol = ''X'', roomCode = ''ABC123''\<rparr>"

definition exPlayerO :: player where
  "exPlayerO = \<lparr>pref = 1, ws = 20, symbol = ''O'', roomCode = ''ABC123''\<rparr>"

definition exRoom :: room where
  "exRoom = \<lparr>code = ''ABC123'', players = [exPlayerX, exPlayerO], board = exBoard,
             currentPlayer = ''X'', gameStarted = True, gameEnded = False\<rparr>"

definition exState :: state where
  "exState = \<lparr>rooms = [''ABC123'' \<mapsto> exRoom],
              playerConnections = [10 \<mapsto> exPlayerX, 20 \<mapsto> exPlayerO],
              timers = [], nextRef = 2\<rparr>"

definition allOpen :: "socket \<Rightarrow> nat" where
  "allOpen conn = OPEN"

text \<open>
  X completes the first row of layer 0 on \<open>exState\<close>; then both players disconnect while
  the game-over callback is still pending.
\<close>

definition exWon :: state where
  "exWon = fst (handleMakeMove exEngine allOpen 10 (KInt 0) (KInt 0) (KInt 0) exState)"

definition exDeserted :: state where
  "exDeserted = fst (handleDisconnect allOpen 20 (fst (handleDisconnect allOpen 10 exWon)))"

text \<open>
  What holds of every reachable state: a room's \<open>code\<close> is its key in the registry, its
  board is 3 by 3 by 3, and a binding belongs to the connection it is stored under.
\<close>

definition stateInv :: "state \<Rightarrow> bool" where
  "stateInv s =
     ((\<forall>rc room. rooms s rc = Some room \<longrightarrow> code room = rc \<and> wf_board (board room))
      \<and> (\<forall>conn p. playerConnections s conn = Some p \<longrightarrow> ws p = conn))"

text \<open>
  Socket 10 creates room ABC123. Then either socket 20 asks for a new room and the
  generator returns ABC123 again, or socket 10 asks for a second room, XYZ789.
\<close>

definition exCreated :: state where
  "exCreated = fst (step exEngine allOpen (Message 10 (Parsed (JoinRoom None)) ''ABC123'') initState)"

definition exCollided :: state where
  "exCollided = fst (step exEngine allOpen (Message 20 (Parsed (JoinRoom None)) ''ABC123'') exCreated)"

definition exTwice :: state where
  "exTwice = fst (step exEngine allOpen (Message 10 (Parsed (JoinRoom None)) ''XYZ789'') exCreated)"

text \<open>
  Three more rooms in mid-game: \<open>exState\<close> with O to move; a board on which only (0,0,0) is
  empty, X to move; and the board on which X owns the first row of layer 0, with the game
  running again and X to move (as after a win, a departure and a new arrival).
\<close>

definition exStateO :: state where
  "exStateO = exState\<lparr>rooms := [''ABC123'' \<mapsto> exRoom\<lparr>currentPlayer := ''O''\<rparr>]\<rparr>"

definition exLastCell :: board where
  "exLastCell =
     [ [ ['''', ''O'', ''O''], [''O'', ''O'', ''O''], [''O'', ''O'', ''O''] ],
       [ [''O'', ''O'', ''O''], [''O'', ''O'', ''O''], [''O'', ''O'', ''O''] ],
       [ [''O'', ''O'', ''O''], [''O'', ''O'', ''O''], [''O'', ''O'', ''O''] ] ]"

definition exStateLast :: state where
  "exStateLast = exState\<lparr>rooms := [''ABC123'' \<mapsto> exRoom\<lparr>board := exLastCell\<rparr>]\<rparr>"

definition exRowOwned :: board where
  "exRowOwned =
     [ [ [''X'', ''X'', ''X''], ['''', '''', ''''], ['''', '''', ''''] ],
       [ ['''', '''', ''''], ['''', ''O'', ''''], ['''', '''', ''''] ],
       [ ['''', '''', ''''], ['''', '''', ''''], [''O'', '''', ''''] ] ]"

definition exStateResumed :: state where
  "exStateResumed = exState\<lparr>rooms := [''ABC123'' \<mapsto> exRoom\<lparr>board := exRowOwned\<rparr>]\<rparr>"

section \<open>The table of winning lines and checkWin\<close>

lemma winningCombinations_explicit: "winningCombinations =
  [ [(0,0,0),(0,0,1),(0,0,2)], [(0,1,0),(0,1,1),(0,1,2)], [(0,2,0),(0,2,1),(0,2,2)],
   [(1,0,0),(1,0,1),(1,0,2)], [(1,1,0),(1,1,1),(1,1,2)], [(1,2,0),(1,2,1),(1,2,2)],
   [(2,0,0),(2,0,1),(2,0,2)], [(2,1,0),(2,1,1),(2,1,2)], [(2,2,0),(2,2,1),(2,2,2)],
   [(0,0,0),(0,1,0),(0,2,0)], [(0,0,1),(0,1,1),(0,2,1)], [(0,0,2),(0,1,2),(0,2,2)],
   [(1,0,0),(1,1,0),(1,2,0)], [(1,0,1),(1,1,1),(1,2,1)], [(1,0,2),(1,1,2),(1,2,2)],
   [(2,0,0),(2,1,0),(2,2,0)], [(2,0,1),(2,1,1),(2,2,1)], [(2,0,2),(2,1,2),(2,2,2)],
   [(0,0,0),(0,1,1),(0,2,2)], [(0,0,2),(0,1,1),(0,2,0)],
   [(1,0,0),(1,1,1),(1,2,2)], [(1,0,2),(1,1,1),(1,2,0)],
   [(2,0,0),(2,1,1),(2,2,2)], [(2,0,2),(2,1,1),(2,2,0)],
   [(0,0,0),(1,0,0),(2,0,0)], [(0,0,1),(1,0,1),(2,0,1)], [(0,0,2),(1,0,2),(2,0,2)],
   [(0,1,0),(1,1,0),(2,1,0)], [(0,1,1),(1,1,1),(2,1,1)], [(0,1,2),(1,1,2),(2,1,2)],
   [(0,2,0),(1,2,0),(2,2,0)], [(0,2,1),(1,2,1),(2,2,1)], [(0,2,2),(1,2,2),(2,2,2)],
   [(0,0,0),(1,1,0),(2,2,0)], [(0,2,0),(1,1,0),(2,0,0)],
   [(0,0,1),(1,1,1),(2,2,1)], [(0,2,1),(1,1,1),(2,0,1)],
   [(0,0,2),(1,1,2),(2,2,2)], [(0,2,2),(1,1,2),(2,0,2)],
   [(0,0,0),(1,0,1),(2,0,2)], [(0,0,2),(1,0,1),(2,0,0)],
   [(0,1,0),(1,1,1),(2,1,2)], [(0,1,2),(1,1,1),(2,1,0)],
   [(0,2,0),(1,2,1),(2,2,2)], [(0,2,2),(1,2,1),(2,2,0)],
   [(0,0,0),(1,1,1),(2,2,2)], [(0,0,2),(1,1,1),(2,2,0)],
   [(0,2,0),(1,1,1),(2,0,2)], [(0,2,2),(1,1,1),(2,0,0)]]"
  by (simp add: winningCombinations_def layerRows_def layerCols_def layerDiags_def verticals_def
      crossDiagsByCol_def crossDiagsByRow_def spaceDiags_def upt_rec)

lemma group_lengths:
  "length layerRows = 9" "length layerCols = 9" "length layerDiags = 6" "length verticals = 9"
  "length crossDiagsByCol = 6" "length crossDiagsByRow = 6" "length spaceDiags = 4"
  by (simp_all add: layerRows_def layerCols_def layerDiags_def verticals_def
      crossDiagsByCol_def crossDiagsByRow_def spaceDiags_def upt_rec)

lemma winningCombinations_inGrid:
  "list_all (\<lambda>line. length line = 3 \<and> list_all coordInGrid line) winningCombinations"
  unfolding winningCombinations_explicit by (simp add: coordInGrid_def)

lemma winningCombinations_distinct: "distinct winningCombinations"
  unfolding winningCombinations_explicit by simp

lemma wf_board_nth:
  assumes "wf_board b" "l < 3" "r < 3"
  shows "length b = 3" "length (b ! l) = 3" "length (b ! l ! r) = 3"
  using assms by (auto simp: wf_board_def list_all_length)

lemma readElement_inGrid:
  assumes "wf_board b" "l < 3" "r < 3" "c < 3"
  shows "readElement b (int l) (int r) (int c) = Inr (Str (b ! l ! r ! c))"
  using wf_board_nth[OF assms(1-3)] assms(2-4)
  by (simp add: readElement_def jsBoard_def elemAt_def)

lemma readCell_KInt: "readCell E b (KInt l) (KInt r) (KInt c) = readElement b l r c"
  by (simp add: readCell_def readElement_def getProp_def split: sum.splits)


lemma lineValues_inGrid:
  assumes "wf_board b" "list_all coordInGrid line"
  shows "lineValues b line = Inr (map (\<lambda>(l, r, c). Str (b ! l ! r ! c)) line)"
  using assms(2)
proof (induction line)
  case Nil
  then show ?case by simp
next
  case (Cons x xs)
  obtain l r c where x: "x = (l, r, c)" by (cases x)
  with Cons show ?case
    by (simp add: coordInGrid_def readElement_inGrid[OF assms(1)])
qed

lemma scanCombinations_find:
  assumes "wf_board b" "list_all (\<lambda>line. list_all coordInGrid line) combos"
  shows "scanCombinations b p combos =
           Inr (map_option (\<lambda>line. \<lparr>winner = p, winningCells = line\<rparr>) (find (ownsLine b p) combos))"
  using assms(2)
proof (induction combos)
  case Nil
  then show ?case by simp
next
  case (Cons line rest)
  have "list_all (\<lambda>val. val = Str p \<and> val \<noteq> Str '''') (map (\<lambda>(l, r, c). Str (b ! l ! r ! c)) line)
        = ownsLine b p line"
    by (induction line) (auto simp: ownsLine_def)
  with Cons show ?case
    by (simp add: lineValues_inGrid[OF assms(1)])
qed

lemma checkWin_find:
  assumes "wf_board b"
  shows "checkWin b p =
           Inr (map_option (\<lambda>line. \<lparr>winner = p, winningCells = line\<rparr>) (find (ownsLine b p) winningCombinations))"
  unfolding checkWin_def
  by (rule scanCombinations_find[OF assms])
     (use winningCombinations_inGrid in \<open>simp add: list_all_iff\<close>)

lemma wf_emptyBoard: "wf_board emptyBoard"
  by (simp add: wf_board_def emptyBoard_def eval_nat_numeral)

lemma wf_exBoard: "wf_board exBoard"
  by (simp add: wf_board_def exBoard_def)

text \<open>
  Claim C1. On every 3 by 3 by 3 board and for every symbol, \<open>checkWin\<close> scans a table of
  exactly 49 lines of 3 cells each (9 rows, 9 columns and 6 diagonals inside the layers, 9
  verticals, 12 diagonals across the layers, 4 space diagonals), never throws, and returns
  the first line of the table whose cells all hold the symbol and are not empty, with the
  symbol as the winner; it returns nothing exactly when the table has no such line.
\<close>

theorem checkWin_first_owned_line:
  assumes "wf_board b"
  shows "length layerRows = 9 \<and> length layerCols = 9 \<and> length layerDiags = 6
         \<and> length verticals = 9 \<and> length (crossDiagsByCol @ crossDiagsByRow) = 12
         \<and> length spaceDiags = 4 \<and> length winningCombinations = 49
         \<and> distinct winningCombinations
         \<and> (\<forall>line\<in>set winningCombinations. length line = 3)
         \<and> checkWin b p =
             Inr (map_option (\<lambda>line. \<lparr>winner = p, winningCells = line\<rparr>)
                    (find (ownsLine b p) winningCombinations))
         \<and> (checkWin b p = Inr None \<longleftrightarrow> (\<forall>line\<in>set winningCombinations. \<not> ownsLine b p line))"
proof -
  have len: "length winningCombinations = 49"
    by (simp add: winningCombinations_def group_lengths)
  have three: "\<forall>line\<in>set winningCombinations. length line = 3"
    using winningCombinations_inGrid by (simp add: list_all_iff)
  have none: "checkWin b p = Inr None \<longleftrightarrow> (\<forall>line\<in>set winningCombinations. \<not> ownsLine b p line)"
    by (auto simp: checkWin_find[OF assms] find_None_iff)
  show ?thesis
    using len three none winningCombinations_distinct checkWin_find[OF assms, of p]
    by (simp add: group_lengths)
qed

theorem checkWin_first_owned_line_witness:
  "wf_board (placeAll exBoard ''X'' [(0, 1, 0), (0, 2, 0), (0, 0, 0)])
   \<and> checkWin (placeAll exBoard ''X'' [(0, 1, 0), (0, 2, 0), (0, 0, 0)]) ''X''
       = Inr (Some \<lparr>winner = ''X'', winningCells = [(0, 0, 0), (0, 0, 1), (0, 0, 2)]\<rparr>)
   \<and> checkWin exBoard ''O'' = Inr None"
proof -
  let ?b = "placeAll exBoard ''X'' [(0, 1, 0), (0, 2, 0), (0, 0, 0)]"
  have b: "?b = [ [ [''X'', ''X'', ''X''], [''X'', '''', ''''], [''X'', '''', '''']],
                 [ ['''', '''', ''''], ['''', ''O'', ''''], ['''', '''', '''']],
                 [ ['''', '''', ''''], ['''', '''', ''''], [''O'', '''', '''']]]"
    by (simp add: placeAll_def setCell_def exBoard_def)
  have wf: "wf_board ?b"
    unfolding b by (simp add: wf_board_def)
  have f1: "find (ownsLine ?b ''X'') winningCombinations = Some [(0, 0, 0), (0, 0, 1), (0, 0, 2)]"
    unfolding b winningCombinations_explicit by (simp add: ownsLine_def)
  have f2: "find (ownsLine exBoard ''O'') winningCombinations = None"
    unfolding winningCombinations_explicit by (simp add: ownsLine_def exBoard_def)
  show ?thesis
    using checkWin_first_owned_line[OF wf, of "''X''"] checkWin_first_owned_line[OF wf_exBoard, of "''O''"]
      wf f1 f2
    by simp
qed

section \<open>Placing a symbol on a whole line\<close>

lemma wf_setCell:
  assumes "wf_board b" "l < 3" "r < 3" "c < 3"
  shows "wf_board (setCell b l r c p)"
  using assms
  by (auto simp: wf_board_def setCell_def list_all_length nth_list_update)


lemma cellAt_setCell:
  assumes "wf_board b" "coordInGrid x" "coordInGrid y"
  shows "cellAt (setCell b (fst x) (fst (snd x)) (snd (snd x)) p) y
           = (if y = x then p else cellAt b y)"
proof -
  obtain l r c where x: "x = (l, r, c)" by (cases x)
  obtain l' r' c' where y: "y = (l', r', c')" by (cases y)
  have in_x: "l < 3" "r < 3" "c < 3" and in_y: "l' < 3" "r' < 3" "c' < 3"
    using assms(2,3) by (simp_all add: coordInGrid_def x y)
  note len = wf_board_nth[OF assms(1) in_x(1,2)]
  show ?thesis
    using len in_x in_y
    by (auto simp: x y cellAt_def setCell_def nth_list_update)
qed

lemma placeAll_props:
  assumes "list_all coordInGrid cells" "wf_board b"
  shows "wf_board (placeAll b p cells) \<and>
         (\<forall>y. coordInGrid y \<longrightarrow> cellAt (placeAll b p cells) y = (if y \<in> set cells then p else cellAt b y))"
  using assms
proof (induction cells arbitrary: b)
  case Nil
  then show ?case by (simp add: placeAll_def)
next
  case (Cons x xs)
  obtain l r c where x: "x = (l, r, c)" by (cases x)
  let ?b1 = "setCell b l r c p"
  have wf1: "wf_board ?b1"
    using Cons.prems x by (intro wf_setCell) (simp_all add: coordInGrid_def)
  have step: "placeAll b p (x # xs) = placeAll ?b1 p xs"
    by (simp add: placeAll_def x)
  have xin: "coordInGrid x" and xsin: "list_all coordInGrid xs"
    using Cons.prems(1) by simp_all
  have c1: "cellAt ?b1 y = (if y = x then p else cellAt b y)" if "coordInGrid y" for y
    using cellAt_setCell[OF Cons.prems(2) xin that, of p] by (simp add: x)
  from Cons.IH[OF xsin wf1] c1 show ?case
    unfolding step by auto
qed

lemma ownsLine_cellAt: "ownsLine b p line = list_all (\<lambda>x. cellAt b x = p \<and> cellAt b x \<noteq> '''') line"
  by (simp add: ownsLine_def cellAt_def case_prod_unfold)

lemma find_unique:
  assumes "x \<in> set xs" "P x" "\<forall>y\<in>set xs. y \<noteq> x \<longrightarrow> \<not> P y"
  shows "find P xs = Some x"
  using assms by (induction xs) auto

text \<open>
  Claim C3, as stated, fails when the last placement completes two lines at once. On
  \<open>exBoard\<close> X already holds (0,0,1) and (0,0,2). X then takes the first column of layer 0
  in the order (0,1,0), (0,2,0), (0,0,0): before the last placement no line is complete,
  and after it \<open>checkWin\<close> reports the first row of layer 0, which comes earlier in the
  table, not the column that was placed.
\<close>

theorem placed_line_not_reported_counterexample:
  "[(0, 0, 0), (0, 1, 0), (0, 2, 0)] \<in> set winningCombinations
   \<and> wf_board exBoard
   \<and> checkWin exBoard ''X'' = Inr None
   \<and> checkWin (placeAll exBoard ''X'' [(0, 1, 0)]) ''X'' = Inr None
   \<and> checkWin (placeAll exBoard ''X'' [(0, 1, 0), (0, 2, 0)]) ''X'' = Inr None
   \<and> checkWin (placeAll exBoard ''X'' [(0, 1, 0), (0, 2, 0), (0, 0, 0)]) ''X''
       = Inr (Some \<lparr>winner = ''X'', winningCells = [(0, 0, 0), (0, 0, 1), (0, 0, 2)]\<rparr>)
   \<and> checkWin (placeAll exBoard ''X'' [(0, 1, 0), (0, 2, 0), (0, 0, 0)]) ''X''
       \<noteq> Inr (Some \<lparr>winner = ''X'', winningCells = [(0, 0, 0), (0, 1, 0), (0, 2, 0)]\<rparr>)"
  by (simp add: checkWin_def winningCombinations_explicit placeAll_def setCell_def
      exBoard_def readElement_def jsBoard_def elemAt_def wf_board_def)

text \<open>
  Claim C3, amended. For every line of the table and every non-empty symbol: after the
  symbol has been written to the three cells of the line, in any order, on a 3 by 3 by 3
  board, \<open>checkWin\<close> reports exactly that line and that symbol, provided no other line of
  the table is complete for the symbol on the resulting board (none was completed
  earlier, and none is completed by the same last placement).
\<close>

theorem placed_line_reported:
  assumes "wf_board b" and "p \<noteq> ''''"
    and "line \<in> set winningCombinations"
    and "set order = set line"
    and "\<forall>other\<in>set winningCombinations. other \<noteq> line \<longrightarrow> \<not> ownsLine (placeAll b p order) p other"
  shows "checkWin (placeAll b p order) p = Inr (Some \<lparr>winner = p, winningCells = line\<rparr>)"
proof -
  have grid: "list_all coordInGrid line"
    using winningCombinations_inGrid assms(3) by (auto simp: list_all_iff)
  then have ogrid: "list_all coordInGrid order"
    using assms(4) by (simp add: list_all_iff)
  note pa = placeAll_props[OF ogrid assms(1), of p]
  have "ownsLine (placeAll b p order) p line"
    using pa grid assms(2,4) by (auto simp: ownsLine_cellAt list_all_iff)
  then have "find (ownsLine (placeAll b p order) p) winningCombinations = Some line"
    using assms(3,5) by (intro find_unique) auto
  then show ?thesis
    using pa by (simp add: checkWin_find)
qed

theorem placed_line_reported_witness:
  "checkWin (placeAll emptyBoard ''O'' [(2, 2, 0), (0, 2, 2), (1, 2, 1)]) ''O''
     = Inr (Some \<lparr>winner = ''O'', winningCells = [(0, 2, 2), (1, 2, 1), (2, 2, 0)]\<rparr>)"
proof -
  let ?line = "[(0, 2, 2), (1, 2, 1), (2, 2, 0)] :: coord list"
  let ?order = "[(2, 2, 0), (0, 2, 2), (1, 2, 1)] :: coord list"
  note wf = wf_emptyBoard
  have sym: "''O'' \<noteq> ''''" by simp
  have mem: "?line \<in> set winningCombinations"
    unfolding winningCombinations_explicit by simp
  have ord: "set ?order = set ?line" by auto
  have b: "placeAll emptyBoard ''O'' ?order =
             [ [ ['''', '''', ''''], ['''', '''', ''''], ['''', '''', ''O'']],
              [ ['''', '''', ''''], ['''', '''', ''''], ['''', ''O'', '''']],
              [ ['''', '''', ''''], ['''', '''', ''''], [''O'', '''', '''']]]"
    by (simp add: placeAll_def setCell_def emptyBoard_def eval_nat_numeral)
  have others: "\<forall>other\<in>set winningCombinations. other \<noteq> ?line \<longrightarrow>
                  \<not> ownsLine (placeAll emptyBoard ''O'' ?order) ''O'' other"
    unfolding b winningCombinations_explicit by (simp add: ownsLine_def)
  show ?thesis
    by (rule placed_line_reported[OF wf sym mem ord others])
qed

section \<open>The example states\<close>

lemma exBoard_move:
  "setCell exBoard 0 0 0 ''X'' =
     [ [ [''X'', ''X'', ''X''], ['''', '''', ''''], ['''', '''', '''']],
      [ ['''', '''', ''''], ['''', ''O'', ''''], ['''', '''', '''']],
      [ ['''', '''', ''''], ['''', '''', ''''], [''O'', '''', '''']]]"
  by (simp add: setCell_def exBoard_def)

lemma exBoard_move_win:
  "checkWin (setCell exBoard 0 0 0 ''X'') ''X''
     = Inr (Some \<lparr>winner = ''X'', winningCells = [(0, 0, 0), (0, 0, 1), (0, 0, 2)]\<rparr>)"
  unfolding exBoard_move
  by (simp add: checkWin_def winningCombinations_explicit readElement_def jsBoard_def elemAt_def)

lemma exBoard_read: "readCell E exBoard (KInt 0) (KInt 0) (KInt 0) = Inr (Str '''')"
  by (simp add: readCell_KInt readElement_def jsBoard_def elemAt_def exBoard_def)

lemma exBoard_index: "cellIndex exBoard (KInt 0) (KInt 0) (KInt 0) = Some (0, 0, 0)"
  by (simp add: cellIndex_def exBoard_def)

lemma exWon_eq:
  "handleMakeMove exEngine allOpen 10 (KInt 0) (KInt 0) (KInt 0) exState =
     (exState\<lparr>rooms := [''ABC123'' \<mapsto>
                 exRoom\<lparr>board := setCell exBoard 0 0 0 ''X'', gameEnded := True\<rparr>],
              timers := [(''ABC123'', GameOver (Some ''X'') (Some [(0, 0, 0), (0, 0, 1), (0, 0, 2)]))]\<rparr>,
      [(10, MoveMade (KInt 0) (KInt 0) (KInt 0) ''X'' ''X''), (20, MoveMade (KInt 0) (KInt 0) (KInt 0) ''X'' ''X'')],
      Returned)"
  by (simp add: handleMakeMove_def finishMove_def exState_def exRoom_def exPlayerX_def exPlayerO_def
      exBoard_read exBoard_index exBoard_move_win Let_def broadcastToRoom_def allOpen_def)

lemma exWon_state:
  "exWon = exState\<lparr>rooms := [''ABC123'' \<mapsto>
                 exRoom\<lparr>board := setCell exBoard 0 0 0 ''X'', gameEnded := True\<rparr>],
              timers := [(''ABC123'', GameOver (Some ''X'') (Some [(0, 0, 0), (0, 0, 1), (0, 0, 2)]))]\<rparr>"
  by (simp add: exWon_def exWon_eq)

lemma exDeserted_eq:
  "rooms exDeserted ''ABC123'' = None"
  "timers exDeserted = [(''ABC123'', GameOver (Some ''X'') (Some [(0, 0, 0), (0, 0, 1), (0, 0, 2)]))]"
  unfolding exDeserted_def exWon_state
  by (simp_all add: handleDisconnect_def Let_def
      exState_def exRoom_def exPlayerX_def exPlayerO_def broadcastToRoom_def)

lemma exPlayers_filter:
  "filter (\<lambda>p. ws p \<noteq> 10) (players exRoom) = [exPlayerO]"
  "filter (\<lambda>p. allOpen (ws p) = OPEN) [exPlayerO] = [exPlayerO]"
  by (simp_all add: exRoom_def exPlayerX_def exPlayerO_def allOpen_def)

section \<open>Leaving a room\<close>

lemma handleDisconnect_unbound:
  "playerConnections s conn = None \<Longrightarrow> handleDisconnect rs conn s = (s, [])"
  by (simp add: handleDisconnect_def)

lemma handleDisconnect_unbinds:
  "playerConnections (fst (handleDisconnect rs conn s)) conn = None"
  by (simp add: handleDisconnect_def Let_def split: option.splits)

text \<open>
  Claim C6. When a bound player whose room is in the registry disconnects or sends
  \<open>leave_room\<close>: every entry of the connection is removed from the room's player list
  (the bound player among them); \<open>player_left\<close> with the player's symbol goes to each
  remaining player whose socket is open; the room is deleted from the registry if and only
  if nobody remains, and is otherwise kept with \<open>gameStarted\<close> and \<open>gameEnded\<close> reset to
  false and its board untouched; the connection's binding is removed.
\<close>

theorem player_leaves:
  assumes "playerConnections s conn = Some player"
    and "ws player = conn"
    and "rooms s (roomCode player) = Some room"
  shows "handleDisconnect rs conn s =
           (s\<lparr>rooms :=
                 (if filter (\<lambda>p. ws p \<noteq> conn) (players room) = []
                  then (rooms s)(roomCode player := None)
                  else (rooms s)(roomCode player \<mapsto>
                         room\<lparr>players := filter (\<lambda>p. ws p \<noteq> conn) (players room),
                              gameStarted := False, gameEnded := False\<rparr>)),
               playerConnections := (playerConnections s)(conn := None)\<rparr>,
            map (\<lambda>p. (ws p, PlayerLeft (symbol player)))
              (filter (\<lambda>p. rs (ws p) = OPEN) (filter (\<lambda>p. ws p \<noteq> conn) (players room))))
         \<and> player \<notin> set (filter (\<lambda>p. ws p \<noteq> conn) (players room))
         \<and> handleLeaveRoom rs conn s = handleDisconnect rs conn s
         \<and> onClose rs conn s = handleDisconnect rs conn s
         \<and> onMessage E rs conn (Parsed LeaveRoom) gen s = handleDisconnect rs conn s"
proof -
  have "onMessage E rs conn (Parsed LeaveRoom) gen s = handleDisconnect rs conn s"
    by (simp add: onMessage_def handleMessage_def handleLeaveRoom_def split: prod.splits)
  then show ?thesis
    using assms
    by (simp add: handleDisconnect_def broadcastToRoom_def Let_def handleLeaveRoom_def onClose_def)
qed

theorem player_leaves_witness:
  "playerConnections exState 10 = Some exPlayerX
   \<and> snd (handleDisconnect allOpen 10 exState) = [(20, PlayerLeft ''X'')]
   \<and> rooms (fst (handleDisconnect allOpen 10 exState)) ''ABC123''
       = Some (exRoom\<lparr>players := [exPlayerO], gameStarted := False, gameEnded := False\<rparr>)
   \<and> playerConnections (fst (handleDisconnect allOpen 10 exState)) 10 = None"
proof -
  have h1: "playerConnections exState 10 = Some exPlayerX"
    by (simp add: exState_def)
  have h2: "ws exPlayerX = 10"
    by (simp add: exPlayerX_def)
  have h3: "rooms exState (roomCode exPlayerX) = Some exRoom"
    by (simp add: exState_def exPlayerX_def)
  have "handleDisconnect allOpen 10 exState =
          (exState\<lparr>rooms := (rooms exState)(roomCode exPlayerX \<mapsto>
                      exRoom\<lparr>players := [exPlayerO], gameStarted := False, gameEnded := False\<rparr>),
                   playerConnections := (playerConnections exState)(10 := None)\<rparr>,
           [(20, PlayerLeft ''X'')])"
    using player_leaves[OF h1 h2 h3, of allOpen exEngine "[]"]
    by (simp add: exPlayers_filter) (simp add: exPlayerX_def exPlayerO_def allOpen_def)
  then show ?thesis
    using h1 by (simp add: exPlayerX_def)
qed

text \<open>
  Claim C8. The cleanup is idempotent and cannot throw: run a second time for the same
  connection, by a second close event or by a close event after \<open>leave_room\<close>, it sends
  nothing and returns the state it was given; the \<open>leave_room\<close> handler always returns
  normally.
\<close>

theorem disconnect_idempotent:
  "handleDisconnect rs' conn (fst (handleDisconnect rs conn s)) = (fst (handleDisconnect rs conn s), [])
   \<and> onClose rs' conn (fst (onMessage E rs conn (Parsed LeaveRoom) gen s))
       = (fst (onMessage E rs conn (Parsed LeaveRoom) gen s), [])
   \<and> snd (snd (handleMessage E rs conn LeaveRoom gen s)) = Returned"
proof -
  have a: "handleDisconnect rs' conn (fst (handleDisconnect rs conn s)) = (fst (handleDisconnect rs conn s), [])"
    by (rule handleDisconnect_unbound) (rule handleDisconnect_unbinds)
  have b: "fst (onMessage E rs conn (Parsed LeaveRoom) gen s) = fst (handleDisconnect rs conn s)"
    by (simp add: onMessage_def handleMessage_def handleLeaveRoom_def split: prod.splits)
  have c: "snd (snd (handleMessage E rs conn LeaveRoom gen s)) = Returned"
    by (simp add: handleMessage_def split: prod.splits)
  show ?thesis using a b c by (simp add: onClose_def)
qed

theorem disconnect_idempotent_witness:
  "playerConnections exState 10 = Some exPlayerX
   \<and> snd (handleDisconnect allOpen 10 exState) = [(20, PlayerLeft ''X'')]
   \<and> handleDisconnect allOpen 10 (fst (handleDisconnect allOpen 10 exState))
       = (fst (handleDisconnect allOpen 10 exState), [])"
proof -
  have a: "playerConnections exState 10 = Some exPlayerX"
    by (simp add: exState_def)
  have b: "snd (handleDisconnect allOpen 10 exState) = [(20, PlayerLeft ''X'')]"
    by (simp add: handleDisconnect_def exState_def exRoom_def exPlayerX_def exPlayerO_def
        broadcastToRoom_def allOpen_def Let_def)
  have c: "handleDisconnect allOpen 10 (fst (handleDisconnect allOpen 10 exState))
             = (fst (handleDisconnect allOpen 10 exState), [])"
    using disconnect_idempotent[of allOpen 10 allOpen exState exEngine "[]"] by (rule conjunct1)
  show ?thesis using a b c by blast
qed

text \<open>
  Claim C9. Broadcasting to a room code that is not in the registry sends nothing (and a
  broadcast never changes the state). In particular, when the pending game-over callback
  runs after its room has been deleted, nothing is sent and nothing fails: the callback
  is consumed and the rest of the state stays as it was.
\<close>

theorem broadcast_absent_room:
  assumes "rooms s rc = None"
  shows "broadcastToRoom rs s rc message excludePlayer = []
         \<and> (timers s = (rc, message) # rest \<longrightarrow> fireTimer rs s = (s\<lparr>timers := rest\<rparr>, []))"
  using assms by (simp add: broadcastToRoom_def fireTimer_def)

theorem broadcast_absent_room_witness:
  "rooms exDeserted ''ABC123'' = None
   \<and> timers exDeserted = [(''ABC123'', GameOver (Some ''X'') (Some [(0, 0, 0), (0, 0, 1), (0, 0, 2)]))]
   \<and> fireTimer allOpen exDeserted = (exDeserted\<lparr>timers := []\<rparr>, [])"
  using broadcast_absent_room[OF exDeserted_eq(1), of allOpen
      "GameOver (Some ''X'') (Some [(0, 0, 0), (0, 0, 1), (0, 0, 2)])" None "[]"]
    exDeserted_eq
  by simp

section \<open>Moves\<close>

lemma set_allCells: "set allCells = {(l, r, c). l < 3 \<and> r < 3 \<and> c < 3}"
  by (auto simp: allCells_def image_iff)

lemma boardFull_iff: "boardFull b = (\<forall>l<3. \<forall>r<3. \<forall>c<3. b ! l ! r ! c \<noteq> '''')"
  by (auto simp: boardFull_def list_all_iff set_allCells cellAt_def)

lemma checkDraw_boardFull:
  assumes "wf_board b"
  shows "checkDraw b = boardFull b"
proof -
  have "checkDraw b = (\<forall>l<3. \<forall>r<3. \<forall>c<3. b ! l ! r ! c \<noteq> '''')"
    using assms by (auto simp: checkDraw_def wf_board_def list_all_length)
  then show ?thesis by (simp add: boardFull_iff)
qed

lemma cellIndex_Some:
  assumes "wf_board b" "cellIndex b k1 k2 k3 = Some (l, r, c)"
  shows "l < 3 \<and> r < 3 \<and> c < 3 \<and> k1 = KInt (int l) \<and> k2 = KInt (int r) \<and> k3 = KInt (int c)"
proof -
  obtain i j k where k: "k1 = KInt i" "k2 = KInt j" "k3 = KInt k"
    using assms(2) by (auto simp: cellIndex_def split: key.splits)
  have r: "0 \<le> i" "i < int (length b)" "0 \<le> j" "j < int (length (b ! nat i))"
    "0 \<le> k" "k < int (length (b ! nat i ! nat j))" "l = nat i" "r = nat j" "c = nat k"
    using assms(2) by (auto simp: cellIndex_def k split: if_splits)
  have "length b = 3" using assms(1) by (simp add: wf_board_def)
  then have l3: "nat i < 3" using r(1,2) by simp
  then have "length (b ! nat i) = 3" using assms(1) by (simp add: wf_board_def list_all_length)
  then have r3: "nat j < 3" using r(3,4) by simp
  then have "length (b ! nat i ! nat j) = 3"
    using assms(1) l3 by (simp add: wf_board_def list_all_length)
  then have c3: "nat k < 3" using r(5,6) by simp
  show ?thesis using l3 r3 c3 r k by simp
qed

lemma finishMove_wf:
  assumes "wf_board (board room1)"
  shows "finishMove rs layer row col player room1 s =
     (let wr = find (ownsLine (board room1) (symbol player)) winningCombinations
      in if wr \<noteq> None \<or> boardFull (board room1)
         then (s\<lparr>rooms := (rooms s)(roomCode player \<mapsto> room1\<lparr>gameEnded := True\<rparr>),
                 timers := timers s @
                   [(roomCode player, GameOver (map_option (\<lambda>line. symbol player) wr) wr)]\<rparr>,
               map (\<lambda>p. (ws p, MoveMade layer row col (symbol player) (currentPlayer room1)))
                 (filter (\<lambda>p. rs (ws p) = OPEN) (players room1)),
               Returned)
         else (s\<lparr>rooms := (rooms s)(roomCode player \<mapsto>
                  room1\<lparr>currentPlayer := (if currentPlayer room1 = ''X'' then ''O'' else ''X'')\<rparr>)\<rparr>,
               map (\<lambda>p. (ws p, MoveMade layer row col (symbol player)
                                 (if currentPlayer room1 = ''X'' then ''O'' else ''X'')))
                 (filter (\<lambda>p. rs (ws p) = OPEN) (players room1)),
               Returned))"
  by (cases "find (ownsLine (board room1) (symbol player)) winningCombinations")
     (simp_all add: finishMove_def checkWin_find[OF assms] checkDraw_boardFull[OF assms]
       Let_def broadcastToRoom_def)


lemma ex_rooms:
  "playerConnections exState 10 = Some exPlayerX" "playerConnections exState 20 = Some exPlayerO"
  "playerConnections exStateO 20 = Some exPlayerO"
  "playerConnections exStateLast 10 = Some exPlayerX"
  "playerConnections exStateResumed 10 = Some exPlayerX"
  "rooms exState (roomCode exPlayerX) = Some exRoom"
  "rooms exStateO (roomCode exPlayerO) = Some (exRoom\<lparr>currentPlayer := ''O''\<rparr>)"
  "rooms exStateLast (roomCode exPlayerX) = Some (exRoom\<lparr>board := exLastCell\<rparr>)"
  "rooms exStateResumed (roomCode exPlayerX) = Some (exRoom\<lparr>board := exRowOwned\<rparr>)"
  by (simp_all add: exState_def exStateO_def exStateLast_def exStateResumed_def exPlayerX_def exPlayerO_def)

lemma ex_fields:
  "gameStarted exRoom" "\<not> gameEnded exRoom" "currentPlayer exRoom = ''X''"
  "symbol exPlayerX = ''X''" "symbol exPlayerO = ''O''"
  "roomCode exPlayerX = ''ABC123''" "roomCode exPlayerO = ''ABC123''"
  "ws exPlayerX = 10" "ws exPlayerO = 20"
  "board exRoom = exBoard" "players exRoom = [exPlayerX, exPlayerO]"
  "timers exState = []" "timers exStateO = []" "timers exStateLast = []" "timers exStateResumed = []"
  by (simp_all add: exState_def exStateO_def exStateLast_def exStateResumed_def exRoom_def
      exPlayerX_def exPlayerO_def)

lemma ex_audience: "filter (\<lambda>p. allOpen (ws p) = OPEN) [exPlayerX, exPlayerO] = [exPlayerX, exPlayerO]"
  by (simp add: allOpen_def)


lemma wf_exRowOwned: "wf_board exRowOwned"
  by (simp add: wf_board_def exRowOwned_def)

lemma boardFull_explicit:
  "boardFull b = list_all (\<lambda>x. cellAt b x \<noteq> '''')
     [(0,0,0),(0,0,1),(0,0,2),(0,1,0),(0,1,1),(0,1,2),(0,2,0),(0,2,1),(0,2,2),
      (1,0,0),(1,0,1),(1,0,2),(1,1,0),(1,1,1),(1,1,2),(1,2,0),(1,2,1),(1,2,2),
      (2,0,0),(2,0,1),(2,0,2),(2,1,0),(2,1,1),(2,1,2),(2,2,0),(2,2,1),(2,2,2)]"
  by (simp add: boardFull_def allCells_def upt_rec numeral_2_eq_2)


lemma onMessage_MakeMove:
  "onMessage E rs conn (Parsed (MakeMove layer row col)) gen s =
     (case handleMakeMove E rs conn layer row col s of
        (s', out, Returned) \<Rightarrow> (s', out)
      | (s', out, Thrown) \<Rightarrow> (s', out @ [(conn, ErrorMsg ''Invalid message format'')]))"
  by (simp add: onMessage_def handleMessage_def)

lemma readElement_cases:
  assumes "wf_board b"
  shows "readElement b l r c =
           (if 0 \<le> l \<and> l < 3 \<and> 0 \<le> r \<and> r < 3
            then Inr (if 0 \<le> c \<and> c < 3 then Str (b ! nat l ! nat r ! nat c) else Undefined)
            else Inl TypeError)"
proof (cases "0 \<le> l \<and> l < 3")
  case False
  then show ?thesis
    using assms by (auto simp: readElement_def jsBoard_def elemAt_def wf_board_def)
next
  case l: True
  then have ll: "nat l < 3" by linarith
  have len1: "length b = 3" "length (b ! nat l) = 3"
    using assms ll by (simp_all add: wf_board_def list_all_length)
  show ?thesis
  proof (cases "0 \<le> r \<and> r < 3")
    case False
    then show ?thesis
      using l len1 by (auto simp: readElement_def jsBoard_def elemAt_def)
  next
    case r: True
    then have rr: "nat r < 3" by linarith
    have len2: "length (b ! nat l ! nat r) = 3"
      using assms ll rr by (simp add: wf_board_def list_all_length)
    show ?thesis
      using l r len1 len2 by (auto simp: readElement_def jsBoard_def elemAt_def)
  qed
qed

text \<open>
  With three integers that do not all index the grid the handler changes nothing and
  replies with one error: the read throws when layer or row is out of range, and yields
  \<^verbatim>\<open>undefined\<close> when only col is.
\<close>

lemma off_grid_index_rejected:
  assumes bound: "playerConnections s conn = Some player"
    and room: "rooms s (roomCode player) = Some room"
    and active: "gameStarted room" "\<not> gameEnded room"
    and turn: "currentPlayer room = symbol player"
    and wf: "wf_board (board room)"
    and off: "\<not> (inGrid (KInt l) \<and> inGrid (KInt r) \<and> inGrid (KInt c))"
  shows "onMessage E rs conn (Parsed (MakeMove (KInt l) (KInt r) (KInt c))) gen s =
           (s, [(conn, ErrorMsg (if inGrid (KInt l) \<and> inGrid (KInt r)
                                 then ''Cell already taken'' else ''Invalid message format''))])"
  using bound room active turn off
  by (auto simp: onMessage_MakeMove handleMakeMove_def readCell_KInt readElement_cases[OF wf] inGrid_def)

lemma readCell_ghost:
  assumes "arrayProp E n = Inr (Obj f)" "n \<noteq> ''length''"
    and "objectProp E f ''__proto__'' = Inr (Obj fp)"
    and "objectProp E fp ''name'' = Inr (Str '''')"
  shows "readCell E b (KName n) (KName ''__proto__'') (KName ''name'') = Inr (Str '''')"
  using assms by (simp add: readCell_def getProp_def jsBoard_def)

text \<open>
  Claim C10 says that a move whose keys do not index the grid leaves the room as it was
  and is answered with an error. The code departs from it. Let layer be the name of a
  function that arrays inherit (\<^verbatim>\<open>"constructor"\<close>, \<^verbatim>\<open>"map"\<close>), row be
  \<^verbatim>\<open>"__proto__"\<close> and col be \<^verbatim>\<open>"name"\<close>: the read yields the \<^verbatim>\<open>name\<close> of
  \<^verbatim>\<open>Function.prototype\<close>, the empty string, so the test under
  \<^verbatim>\<open>// Check if move is valid\<close> passes; the assignment leaves the board alone; and the
  handler goes on as after a move. No error is sent and the room changes: if the mover
  already owns a line, or the board is full, the game ends and \<open>game_over\<close> is
  scheduled; otherwise the turn passes to the other player, who has seen no symbol
  placed.
\<close>

theorem ghost_move_accepted:
  assumes bound: "playerConnections s conn = Some player"
    and room: "rooms s (roomCode player) = Some room"
    and active: "gameStarted room" "\<not> gameEnded room"
    and turn: "currentPlayer room = symbol player"
    and wf: "wf_board (board room)"
    and fn: "arrayProp E n = Inr (Obj f)" "n \<noteq> ''length''"
    and proto: "objectProp E f ''__proto__'' = Inr (Obj fp)"
    and name: "objectProp E fp ''name'' = Inr (Str '''')"
    and dropped: "\<not> assignThrows E (KName n) (KName ''__proto__'') (KName ''name'')"
  shows "let layer = KName n; row = KName ''__proto__''; col = KName ''name'';
             wr = find (ownsLine (board room) (symbol player)) winningCombinations;
             audience = filter (\<lambda>p. rs (ws p) = OPEN) (players room);
             next = (if symbol player = ''X'' then ''O'' else ''X'');
             result = onMessage E rs conn (Parsed (MakeMove layer row col)) gen s
         in \<not> inGrid layer
          \<and> result =
              (if wr \<noteq> None \<or> boardFull (board room)
               then (s\<lparr>rooms := (rooms s)(roomCode player \<mapsto> room\<lparr>gameEnded := True\<rparr>),
                       timers := timers s @
                         [(roomCode player, GameOver (map_option (\<lambda>line. symbol player) wr) wr)]\<rparr>,
                     map (\<lambda>p. (ws p, MoveMade layer row col (symbol player) (currentPlayer room))) audience)
               else (s\<lparr>rooms := (rooms s)(roomCode player \<mapsto> room\<lparr>currentPlayer := next\<rparr>)\<rparr>,
                     map (\<lambda>p. (ws p, MoveMade layer row col (symbol player) next)) audience))
          \<and> fst result \<noteq> s
          \<and> (\<forall>w t. (w, ErrorMsg t) \<notin> set (snd result))"
proof -
  let ?L = "KName n" and ?R = "KName ''__proto__''" and ?C = "KName ''name''"
  let ?wr = "find (ownsLine (board room) (symbol player)) winningCombinations"
  let ?next = "if symbol player = ''X'' then ''O'' else ''X''"
  let ?ended = "s\<lparr>rooms := (rooms s)(roomCode player \<mapsto> room\<lparr>gameEnded := True\<rparr>),
                   timers := timers s @
                     [(roomCode player, GameOver (map_option (\<lambda>line. symbol player) ?wr) ?wr)]\<rparr>"
  let ?passed = "s\<lparr>rooms := (rooms s)(roomCode player \<mapsto> room\<lparr>currentPlayer := ?next\<rparr>)\<rparr>"
  have rd: "readCell E (board room) ?L ?R ?C = Inr (Str '''')"
    by (rule readCell_ghost[OF fn proto name])
  have ci: "cellIndex (board room) ?L ?R ?C = None"
    by (simp add: cellIndex_def)
  have mm: "handleMakeMove E rs conn ?L ?R ?C s = finishMove rs ?L ?R ?C player room s"
    using bound room active turn dropped by (simp add: handleMakeMove_def rd ci)
  note fm = finishMove_wf[OF wf, of rs ?L ?R ?C player s, unfolded Let_def, unfolded turn]
  have res: "onMessage E rs conn (Parsed (MakeMove ?L ?R ?C)) gen s =
      (if ?wr \<noteq> None \<or> boardFull (board room)
       then (?ended, map (\<lambda>p. (ws p, MoveMade ?L ?R ?C (symbol player) (symbol player)))
                      (filter (\<lambda>p. rs (ws p) = OPEN) (players room)))
       else (?passed, map (\<lambda>p. (ws p, MoveMade ?L ?R ?C (symbol player) ?next))
                        (filter (\<lambda>p. rs (ws p) = OPEN) (players room))))"
    unfolding onMessage_MakeMove mm fm by simp
  have ne1: "?ended \<noteq> s"
  proof
    assume "?ended = s"
    then have "rooms ?ended (roomCode player) = rooms s (roomCode player)" by simp
    then show False using room active(2) by (auto dest: arg_cong[where f = gameEnded])
  qed
  have ne2: "?passed \<noteq> s"
  proof
    assume "?passed = s"
    then have "rooms ?passed (roomCode player) = rooms s (roomCode player)" by simp
    then have "currentPlayer (room\<lparr>currentPlayer := ?next\<rparr>) = currentPlayer room"
      using room by simp
    then show False using turn by (auto split: if_splits)
  qed
  show ?thesis
    unfolding Let_def res using ne1 ne2 turn by (auto simp: inGrid_def)
qed

lemma exEngine_props:
  "arrayProp exEngine ''map'' = Inr (Obj 13)" "arrayProp exEngine ''constructor'' = Inr (Obj 10)"
  "objectProp exEngine 13 ''__proto__'' = Inr (Obj 12)" "objectProp exEngine 10 ''__proto__'' = Inr (Obj 12)"
  "objectProp exEngine 12 ''name'' = Inr (Str '''')"
  "\<not> assignThrows exEngine k1 k2 k3"
  by (simp_all add: exEngine_def)

theorem ghost_move_accepted_witness:
  "onMessage exEngine allOpen 10
      (Parsed (MakeMove (KName ''map'') (KName ''__proto__'') (KName ''name''))) [] exState =
     (exState\<lparr>rooms := (rooms exState)(''ABC123'' \<mapsto> exRoom\<lparr>currentPlayer := ''O''\<rparr>)\<rparr>,
      [(10, MoveMade (KName ''map'') (KName ''__proto__'') (KName ''name'') ''X'' ''O''),
       (20, MoveMade (KName ''map'') (KName ''__proto__'') (KName ''name'') ''X'' ''O'')])
   \<and> onMessage exEngine allOpen 10
      (Parsed (MakeMove (KName ''constructor'') (KName ''__proto__'') (KName ''name''))) [] exStateResumed =
     (exStateResumed\<lparr>rooms := (rooms exStateResumed)(''ABC123'' \<mapsto>
                        exRoom\<lparr>board := exRowOwned, gameEnded := True\<rparr>),
                     timers := [(''ABC123'', GameOver (Some ''X'') (Some [(0, 0, 0), (0, 0, 1), (0, 0, 2)]))]\<rparr>,
      [(10, MoveMade (KName ''constructor'') (KName ''__proto__'') (KName ''name'') ''X'' ''X''),
       (20, MoveMade (KName ''constructor'') (KName ''__proto__'') (KName ''name'') ''X'' ''X'')])"
proof -
  have nl: "''map'' \<noteq> ''length''" "''constructor'' \<noteq> ''length''" by simp_all
  have flip: "onMessage exEngine allOpen 10
      (Parsed (MakeMove (KName ''map'') (KName ''__proto__'') (KName ''name''))) [] exState =
     (exState\<lparr>rooms := (rooms exState)(''ABC123'' \<mapsto> exRoom\<lparr>currentPlayer := ''O''\<rparr>)\<rparr>,
      [(10, MoveMade (KName ''map'') (KName ''__proto__'') (KName ''name'') ''X'' ''O''),
       (20, MoveMade (KName ''map'') (KName ''__proto__'') (KName ''name'') ''X'' ''O'')])"
  proof -
    have f: "find (ownsLine (board exRoom) (symbol exPlayerX)) winningCombinations = None"
      unfolding winningCombinations_explicit by (simp add: ownsLine_def exBoard_def ex_fields)
    have full: "\<not> boardFull (board exRoom)"
      by (simp add: boardFull_explicit cellAt_def exBoard_def ex_fields)
    have a: "filter (\<lambda>p. allOpen (ws p) = OPEN) (players exRoom) = [exPlayerX, exPlayerO]"
      by (simp add: ex_fields allOpen_def)
    have w: "wf_board (board exRoom)" by (simp add: ex_fields wf_exBoard)
    have t: "currentPlayer exRoom = symbol exPlayerX" by (simp add: ex_fields)
    have "onMessage exEngine allOpen 10
        (Parsed (MakeMove (KName ''map'') (KName ''__proto__'') (KName ''name''))) [] exState =
       (exState\<lparr>rooms := (rooms exState)(roomCode exPlayerX \<mapsto>
                    exRoom\<lparr>currentPlayer := (if symbol exPlayerX = ''X'' then ''O'' else ''X'')\<rparr>)\<rparr>,
        map (\<lambda>p. (ws p, MoveMade (KName ''map'') (KName ''__proto__'') (KName ''name'') (symbol exPlayerX)
                          (if symbol exPlayerX = ''X'' then ''O'' else ''X'')))
          [exPlayerX, exPlayerO])"
      using ghost_move_accepted[OF ex_rooms(1) ex_rooms(6) ex_fields(1,2) t w exEngine_props(1) nl(1)
          exEngine_props(3) exEngine_props(5) exEngine_props(6), of allOpen "[]"] full
      unfolding Let_def f a by simp
    then show ?thesis by (simp add: ex_fields)
  qed
  have stay: "onMessage exEngine allOpen 10
      (Parsed (MakeMove (KName ''constructor'') (KName ''__proto__'') (KName ''name''))) [] exStateResumed =
     (exStateResumed\<lparr>rooms := (rooms exStateResumed)(''ABC123'' \<mapsto>
                        exRoom\<lparr>board := exRowOwned, gameEnded := True\<rparr>),
                     timers := [(''ABC123'', GameOver (Some ''X'') (Some [(0, 0, 0), (0, 0, 1), (0, 0, 2)]))]\<rparr>,
      [(10, MoveMade (KName ''constructor'') (KName ''__proto__'') (KName ''name'') ''X'' ''X''),
       (20, MoveMade (KName ''constructor'') (KName ''__proto__'') (KName ''name'') ''X'' ''X'')])"
  proof -
    let ?room = "exRoom\<lparr>board := exRowOwned\<rparr>"
    have f: "find (ownsLine (board ?room) (symbol exPlayerX)) winningCombinations
               = Some [(0, 0, 0), (0, 0, 1), (0, 0, 2)]"
      unfolding winningCombinations_explicit by (simp add: ownsLine_def exRowOwned_def ex_fields)
    have a: "filter (\<lambda>p. allOpen (ws p) = OPEN) (players ?room) = [exPlayerX, exPlayerO]"
      by (simp add: ex_fields allOpen_def)
    have w: "wf_board (board ?room)" by (simp add: wf_exRowOwned)
    have g: "gameStarted ?room" "\<not> gameEnded ?room" "currentPlayer ?room = symbol exPlayerX"
      by (simp_all add: ex_fields)
    have "onMessage exEngine allOpen 10
        (Parsed (MakeMove (KName ''constructor'') (KName ''__proto__'') (KName ''name''))) [] exStateResumed =
       (exStateResumed\<lparr>rooms := (rooms exStateResumed)(roomCode exPlayerX \<mapsto> ?room\<lparr>gameEnded := True\<rparr>),
                       timers := timers exStateResumed @
                         [(roomCode exPlayerX, GameOver (Some (symbol exPlayerX)) (Some [(0, 0, 0), (0, 0, 1), (0, 0, 2)]))]\<rparr>,
        map (\<lambda>p. (ws p, MoveMade (KName ''constructor'') (KName ''__proto__'') (KName ''name'') (symbol exPlayerX)
                          (currentPlayer ?room)))
          [exPlayerX, exPlayerO])"
      using ghost_move_accepted[OF ex_rooms(5) ex_rooms(9) g w exEngine_props(2) nl(2)
          exEngine_props(4) exEngine_props(5) exEngine_props(6), of allOpen "[]"]
      unfolding Let_def f a by simp
    then show ?thesis by (simp add: ex_fields)
  qed
  show ?thesis using flip stay by blast
qed

section \<open>Errors\<close>

lemma broadcast_message:
  "(w, m') \<in> set (broadcastToRoom rs s rc m ex) \<Longrightarrow> m' = m"
  by (auto simp: broadcastToRoom_def split: option.splits)

lemma addPlayer_no_error:
  "(w, ErrorMsg t) \<notin> set (snd (addPlayer rs conn rc room s))"
  by (auto simp: addPlayer_def Let_def dest: broadcast_message)

lemma addPlayer_no_errorD:
  "addPlayer rs conn rc room s = (s', out) \<Longrightarrow> (w, ErrorMsg t) \<in> set out \<Longrightarrow> False"
  by (metis addPlayer_no_error snd_conv)

lemma finishMove_no_error:
  assumes "wf_board (board room1)"
    and "finishMove rs layer row col player room1 s = (s', out, c)"
  shows "c = Returned \<and> (w, ErrorMsg t) \<notin> set out"
  using assms(2) unfolding finishMove_wf[OF assms(1)] Let_def
  by (auto split: if_splits)

lemma handleMakeMove_error:
  assumes wf: "\<And>player room. playerConnections s conn = Some player \<Longrightarrow>
                 rooms s (roomCode player) = Some room \<Longrightarrow> wf_board (board room)"
    and res: "handleMakeMove E rs conn layer row col s = (s', out, c)"
    and err: "c = Thrown \<or> (w, ErrorMsg t) \<in> set out"
  shows "s' = s \<and> (if c = Thrown then out = [] else out = [(conn, ErrorMsg t)] \<and> w = conn)"
proof (cases "playerConnections s conn")
  case None
  then show ?thesis using res err by (simp add: handleMakeMove_def)
next
  case (Some player)
  show ?thesis
  proof (cases "rooms s (roomCode player)")
    case None
    then show ?thesis using res err Some by (auto simp: handleMakeMove_def)
  next
    case room: (Some room)
    note wfb = wf[OF Some room]
    have placed: "wf_board (board (room\<lparr>board := setCell (board room) l r c' (symbol player)\<rparr>))"
      if "cellIndex (board room) layer row col = Some (l, r, c')" for l r c'
      using cellIndex_Some[OF wfb that] wf_setCell[OF wfb] by simp
    have fin: "False"
      if "finishMove rs layer row col player room1 s = (s', out, c)" "wf_board (board room1)" for room1
      using finishMove_no_error[OF that(2,1), of w t] err by auto
    show ?thesis
      using res err Some room fin[OF _ placed] fin[OF _ wfb]
      by (auto simp: handleMakeMove_def split: if_splits sum.splits option.splits)
  qed
qed

lemma onMessage_error_local:
  assumes wf: "\<And>player room. playerConnections s conn = Some player \<Longrightarrow>
                 rooms s (roomCode player) = Some room \<Longrightarrow> wf_board (board room)"
    and res: "onMessage E rs conn payload gen s = (s', out)"
    and err: "(w, ErrorMsg t) \<in> set out"
  shows "s' = s \<and> out = [(conn, ErrorMsg t)]"
proof (cases payload)
  case Malformed
  then show ?thesis using res err by (auto simp: onMessage_def)
next
  case (Parsed m)
  show ?thesis
  proof (cases m)
    case (JoinRoom msgCode)
    have "handleJoinRoom rs conn msgCode gen s = (s', out)"
      using res by (simp add: onMessage_def handleMessage_def Parsed JoinRoom split: prod.splits)
    then show ?thesis
      using err
      by (auto simp: handleJoinRoom_def Let_def split: option.splits if_splits prod.splits
          dest: addPlayer_no_errorD)
  next
    case (MakeMove layer row col)
    obtain s1 out1 c where mm: "handleMakeMove E rs conn layer row col s = (s1, out1, c)"
      by (cases "handleMakeMove E rs conn layer row col s") auto
    show ?thesis
    proof (cases c)
      case Returned
      then have "s' = s1" "out = out1"
        using res mm by (simp_all add: onMessage_MakeMove Parsed MakeMove)
      then show ?thesis
        using handleMakeMove_error[where w=w and t=t, OF wf mm] err Returned by auto
    next
      case Thrown
      then have eq: "s' = s1" "out = out1 @ [(conn, ErrorMsg ''Invalid message format'')]"
        using res mm by (simp_all add: onMessage_MakeMove Parsed MakeMove)
      have "s1 = s \<and> out1 = []"
        using handleMakeMove_error[where w=w and t=t, OF wf mm] Thrown by auto
      then show ?thesis using eq err by auto
    qed
  next
    case NewGame
    then show ?thesis
      using res err
      by (auto simp: onMessage_def handleMessage_def Parsed handleNewGame_def Let_def
          split: option.splits if_splits dest: broadcast_message)
  next
    case LeaveRoom
    then show ?thesis
      using res err
      by (auto simp: onMessage_def handleMessage_def Parsed handleLeaveRoom_def handleDisconnect_def Let_def
          split: option.splits if_splits dest: broadcast_message)
  next
    case (ChatMessage body)
    then show ?thesis
      using res err
      by (auto simp: onMessage_def handleMessage_def Parsed handleChatMessage_def
          split: option.splits dest: broadcast_message)
  next
    case UnknownType
    then show ?thesis
      using res err by (auto simp: onMessage_def handleMessage_def Parsed)
  qed
qed

text \<open>
  Claim C4. Each protocol error (a payload that does not parse, an unknown message type)
  and each rule violation (joining a room that has two players; moving when the room is
  gone, not started or ended; moving out of turn; moving to a cell that does not read as
  empty) returns the state unchanged and sends one message, the error, to the sender.
  Conversely, whenever any error message is sent in response to a message (the boards
  being 3 by 3 by 3, as they are in every reachable state), it is the only message sent,
  it goes to the sender, and the state is unchanged.
\<close>

theorem errors_are_local:
  "onMessage E rs conn Malformed gen s = (s, [(conn, ErrorMsg ''Invalid message format'')])
   \<and> onMessage E rs conn (Parsed UnknownType) gen s = (s, [(conn, ErrorMsg ''Unknown message type'')])
   \<and> (rc \<noteq> '''' \<and> rooms s rc = Some full \<and> length (players full) \<ge> 2 \<longrightarrow>
        onMessage E rs conn (Parsed (JoinRoom (Some rc))) gen s = (s, [(conn, ErrorMsg ''Room is full'')]))
   \<and> (playerConnections s conn = Some player \<longrightarrow>
        (case rooms s (roomCode player) of
           None \<Rightarrow>
             onMessage E rs conn (Parsed (MakeMove layer row col)) gen s
               = (s, [(conn, ErrorMsg ''Game not active'')])
         | Some room \<Rightarrow>
             (\<not> gameStarted room \<or> gameEnded room \<longrightarrow>
                onMessage E rs conn (Parsed (MakeMove layer row col)) gen s
                  = (s, [(conn, ErrorMsg ''Game not active'')]))
           \<and> (gameStarted room \<and> \<not> gameEnded room \<and> currentPlayer room \<noteq> symbol player \<longrightarrow>
                onMessage E rs conn (Parsed (MakeMove layer row col)) gen s
                  = (s, [(conn, ErrorMsg ''Not your turn'')]))
           \<and> (gameStarted room \<and> \<not> gameEnded room \<and> currentPlayer room = symbol player
                \<and> (\<exists>v. readCell E (board room) layer row col = Inr v \<and> v \<noteq> Str '''') \<longrightarrow>
                onMessage E rs conn (Parsed (MakeMove layer row col)) gen s
                  = (s, [(conn, ErrorMsg ''Cell already taken'')]))))
   \<and> ((\<forall>p r. playerConnections s conn = Some p \<and> rooms s (roomCode p) = Some r \<longrightarrow> wf_board (board r)) \<longrightarrow>
        (\<forall>payload s' out w t.
            onMessage E rs conn payload gen s = (s', out) \<and> (w, ErrorMsg t) \<in> set out \<longrightarrow>
            s' = s \<and> out = [(conn, ErrorMsg t)]))"
proof -
  have a: "onMessage E rs conn Malformed gen s = (s, [(conn, ErrorMsg ''Invalid message format'')])"
    by (simp add: onMessage_def)
  have b: "onMessage E rs conn (Parsed UnknownType) gen s = (s, [(conn, ErrorMsg ''Unknown message type'')])"
    by (simp add: onMessage_def handleMessage_def)
  have c: "onMessage E rs conn (Parsed (JoinRoom (Some rc))) gen s = (s, [(conn, ErrorMsg ''Room is full'')])"
    if "rc \<noteq> ''''" "rooms s rc = Some full" "length (players full) \<ge> 2"
    using that by (simp add: onMessage_def handleMessage_def handleJoinRoom_def)
  have d: "(case rooms s (roomCode player) of
           None \<Rightarrow>
             onMessage E rs conn (Parsed (MakeMove layer row col)) gen s
               = (s, [(conn, ErrorMsg ''Game not active'')])
         | Some room \<Rightarrow>
             (\<not> gameStarted room \<or> gameEnded room \<longrightarrow>
                onMessage E rs conn (Parsed (MakeMove layer row col)) gen s
                  = (s, [(conn, ErrorMsg ''Game not active'')]))
           \<and> (gameStarted room \<and> \<not> gameEnded room \<and> currentPlayer room \<noteq> symbol player \<longrightarrow>
                onMessage E rs conn (Parsed (MakeMove layer row col)) gen s
                  = (s, [(conn, ErrorMsg ''Not your turn'')]))
           \<and> (gameStarted room \<and> \<not> gameEnded room \<and> currentPlayer room = symbol player
                \<and> (\<exists>v. readCell E (board room) layer row col = Inr v \<and> v \<noteq> Str '''') \<longrightarrow>
                onMessage E rs conn (Parsed (MakeMove layer row col)) gen s
                  = (s, [(conn, ErrorMsg ''Cell already taken'')])))"
    if "playerConnections s conn = Some player"
    using that by (auto simp: onMessage_MakeMove handleMakeMove_def split: option.splits)
  have e: "s' = s \<and> out = [(conn, ErrorMsg t)]"
    if "\<forall>p r. playerConnections s conn = Some p \<and> rooms s (roomCode p) = Some r \<longrightarrow> wf_board (board r)"
      "onMessage E rs conn payload gen s = (s', out)" "(w, ErrorMsg t) \<in> set out"
    for payload s' out w t
    using onMessage_error_local[OF _ that(2,3)] that(1) by blast
  show ?thesis
    using a b c d e by blast
qed

theorem errors_are_local_witness:
  "onMessage exEngine allOpen 20 (Parsed (MakeMove (KInt 1) (KInt 1) (KInt 1))) [] exState
     = (exState, [(20, ErrorMsg ''Not your turn'')])
   \<and> onMessage exEngine allOpen 10 (Parsed (MakeMove (KInt 1) (KInt 1) (KInt 1))) [] exState
     = (exState, [(10, ErrorMsg ''Cell already taken'')])
   \<and> onMessage exEngine allOpen 30 (Parsed (JoinRoom (Some ''ABC123''))) [] exState
     = (exState, [(30, ErrorMsg ''Room is full'')])"
proof -
  have h1: "playerConnections exState 20 = Some exPlayerO" "playerConnections exState 10 = Some exPlayerX"
    by (simp_all add: exState_def)
  have h2: "rooms exState (roomCode exPlayerO) = Some exRoom" "rooms exState (roomCode exPlayerX) = Some exRoom"
    "rooms exState ''ABC123'' = Some exRoom"
    by (simp_all add: exState_def exPlayerO_def exPlayerX_def)
  have h3: "gameStarted exRoom" "\<not> gameEnded exRoom" "currentPlayer exRoom = ''X''"
    "symbol exPlayerX = ''X''" "symbol exPlayerO = ''O''" "length (players exRoom) \<ge> 2"
    by (simp_all add: exRoom_def exPlayerO_def exPlayerX_def)
  have rd: "readCell exEngine (board exRoom) (KInt 1) (KInt 1) (KInt 1) = Inr (Str ''O'')"
    by (simp add: readCell_KInt readElement_def jsBoard_def elemAt_def exRoom_def exBoard_def)
  show ?thesis
    using errors_are_local[of exEngine allOpen 20 "[]" exState "''ABC123''" exRoom exPlayerO "KInt 1" "KInt 1" "KInt 1"]
      errors_are_local[of exEngine allOpen 10 "[]" exState "''ABC123''" exRoom exPlayerX "KInt 1" "KInt 1" "KInt 1"]
      errors_are_local[of exEngine allOpen 30 "[]" exState "''ABC123''" exRoom exPlayerX "KInt 1" "KInt 1" "KInt 1"]
    by (simp add: h1 h2 h3 rd)
qed

section \<open>Invariants of the registries\<close>

lemma stateInv_init: "stateInv initState"
  by (simp add: stateInv_def initState_def)

lemma stateInv_addPlayer:
  assumes "stateInv s" "code room = rc" "wf_board (board room)"
  shows "stateInv (fst (addPlayer rs conn rc room s))"
  using assms by (auto simp: stateInv_def addPlayer_def Let_def)

lemma stateInv_handleJoinRoom:
  assumes "stateInv s"
  shows "stateInv (fst (handleJoinRoom rs conn msgCode gen s))"
proof -
  have new: "stateInv (s\<lparr>rooms := (rooms s)(gen \<mapsto> newRoom gen)\<rparr>)"
    using assms by (auto simp: stateInv_def newRoom_def wf_emptyBoard)
  have fresh: "stateInv (fst (addPlayer rs conn gen (newRoom gen) (s\<lparr>rooms := (rooms s)(gen \<mapsto> newRoom gen)\<rparr>)))"
    by (rule stateInv_addPlayer[OF new]) (simp_all add: newRoom_def wf_emptyBoard)
  have existing: "stateInv (fst (addPlayer rs conn rc room s))" if "rooms s rc = Some room" for rc room
    using assms that by (intro stateInv_addPlayer) (auto simp: stateInv_def)
  show ?thesis
    using assms fresh existing
    by (auto simp: handleJoinRoom_def Let_def split: option.splits)
qed

lemma stateInv_handleMakeMove:
  assumes "stateInv s"
  shows "stateInv (fst (handleMakeMove E rs conn layer row col s))"
proof -
  have fin: "stateInv (fst (finishMove rs layer row col player room1 s))"
    if "wf_board (board room1)" "code room1 = roomCode player" for player room1
    using assms that unfolding finishMove_wf[OF that(1)]
    by (auto simp: stateInv_def Let_def)
  have placed: "wf_board (setCell (board room) l r c mark)"
    if "wf_board (board room)" "cellIndex (board room) layer row col = Some (l, r, c)" for room l r c mark
    using cellIndex_Some[OF that] wf_setCell[OF that(1)] by simp
  show ?thesis
  proof (cases "playerConnections s conn")
    case None
    then show ?thesis using assms by (simp add: handleMakeMove_def)
  next
    case (Some player)
    show ?thesis
    proof (cases "rooms s (roomCode player)")
      case None
      then show ?thesis using assms Some by (simp add: handleMakeMove_def)
    next
      case room: (Some room)
      have inv: "wf_board (board room)" "code room = roomCode player"
        using assms room by (auto simp: stateInv_def)
      have kept: "stateInv (fst (finishMove rs layer row col player room s))"
        by (rule fin[OF inv])
      have written: "stateInv (fst (finishMove rs layer row col player
                       (room\<lparr>board := setCell (board room) l r c (symbol player)\<rparr>) s))"
        if "cellIndex (board room) layer row col = Some (l, r, c)" for l r c
        using fin[of "room\<lparr>board := setCell (board room) l r c (symbol player)\<rparr>" player]
          placed[OF inv(1) that] inv(2) by simp
      show ?thesis
        using assms kept written Some room
        by (auto simp: handleMakeMove_def split: option.splits sum.splits if_splits)
    qed
  qed
qed

lemma stateInv_handleNewGame:
  assumes "stateInv s"
  shows "stateInv (fst (handleNewGame rs conn s))"
  using assms
  by (auto simp: stateInv_def handleNewGame_def Let_def wf_emptyBoard split: option.splits if_splits)

lemma stateInv_handleDisconnect:
  assumes "stateInv s"
  shows "stateInv (fst (handleDisconnect rs conn s))"
  using assms
  by (auto simp: stateInv_def handleDisconnect_def Let_def split: option.splits if_splits)

lemma fst_handleMessage:
  "fst (handleMessage E rs conn m gen s) =
     (case m of
        JoinRoom msgCode \<Rightarrow> fst (handleJoinRoom rs conn msgCode gen s)
      | MakeMove layer row col \<Rightarrow> fst (handleMakeMove E rs conn layer row col s)
      | NewGame \<Rightarrow> fst (handleNewGame rs conn s)
      | LeaveRoom \<Rightarrow> fst (handleDisconnect rs conn s)
      | ChatMessage body \<Rightarrow> s
      | UnknownType \<Rightarrow> s)"
  by (cases m)
     (simp_all add: handleMessage_def handleLeaveRoom_def handleChatMessage_def case_prod_beta
       split: option.splits)

lemma fst_onMessage:
  "fst (onMessage E rs conn payload gen s) =
     (case payload of Malformed \<Rightarrow> s | Parsed m \<Rightarrow> fst (handleMessage E rs conn m gen s))"
  by (cases payload) (simp_all add: onMessage_def split: prod.splits completion.splits)

lemma stateInv_step:
  assumes "stateInv s"
  shows "stateInv (fst (step E rs ev s))"
proof (cases ev)
  case (Message conn payload gen)
  show ?thesis
    using stateInv_handleJoinRoom[OF assms] stateInv_handleMakeMove[OF assms]
      stateInv_handleNewGame[OF assms] stateInv_handleDisconnect[OF assms] assms
    by (simp add: step_def Message fst_onMessage fst_handleMessage split: payload.splits inmsg.splits)
next
  case (Close conn)
  then show ?thesis
    using stateInv_handleDisconnect[OF assms] by (simp add: step_def onClose_def)
next
  case Timeout
  then show ?thesis
    using assms by (auto simp: step_def fireTimer_def stateInv_def split: list.splits)
qed

lemma reachable_stateInv: "reachable s \<Longrightarrow> stateInv s"
  by (induction rule: reachable.induct) (simp_all add: stateInv_init stateInv_step)

lemma exCreated_eq:
  "exCreated =
     \<lparr>rooms = [''ABC123'' \<mapsto>
         \<lparr>code = ''ABC123'', players = [\<lparr>pref = 0, ws = 10, symbol = ''X'', roomCode = ''ABC123''\<rparr>],
          board = emptyBoard, currentPlayer = ''X'', gameStarted = False, gameEnded = False\<rparr>],
      playerConnections = [10 \<mapsto> \<lparr>pref = 0, ws = 10, symbol = ''X'', roomCode = ''ABC123''\<rparr>],
      timers = [], nextRef = 1\<rparr>"
  by (simp add: exCreated_def step_def onMessage_def handleMessage_def handleJoinRoom_def addPlayer_def
      newRoom_def initState_def Let_def broadcastToRoom_def)

lemma reachable_exCreated: "reachable exCreated"
  unfolding exCreated_def by (rule reachable_step[OF reachable_init])

lemma exCollided_eq:
  "rooms exCollided ''ABC123'' =
     Some \<lparr>code = ''ABC123'', players = [\<lparr>pref = 1, ws = 20, symbol = ''X'', roomCode = ''ABC123''\<rparr>],
           board = emptyBoard, currentPlayer = ''X'', gameStarted = False, gameEnded = False\<rparr>"
  "playerConnections exCollided 10 = Some \<lparr>pref = 0, ws = 10, symbol = ''X'', roomCode = ''ABC123''\<rparr>"
  unfolding exCollided_def exCreated_eq
  by (simp_all add: step_def onMessage_def handleMessage_def handleJoinRoom_def addPlayer_def
      newRoom_def Let_def broadcastToRoom_def)

lemma exTwice_eq:
  "rooms exTwice ''ABC123'' =
     Some \<lparr>code = ''ABC123'', players = [\<lparr>pref = 0, ws = 10, symbol = ''X'', roomCode = ''ABC123''\<rparr>],
           board = emptyBoard, currentPlayer = ''X'', gameStarted = False, gameEnded = False\<rparr>"
  "rooms exTwice ''XYZ789'' =
     Some \<lparr>code = ''XYZ789'', players = [\<lparr>pref = 1, ws = 10, symbol = ''X'', roomCode = ''XYZ789''\<rparr>],
           board = emptyBoard, currentPlayer = ''X'', gameStarted = False, gameEnded = False\<rparr>"
  "playerConnections exTwice 10 = Some \<lparr>pref = 1, ws = 10, symbol = ''X'', roomCode = ''XYZ789''\<rparr>"
  unfolding exTwice_def exCreated_eq
  by (simp_all add: step_def onMessage_def handleMessage_def handleJoinRoom_def addPlayer_def
      newRoom_def Let_def broadcastToRoom_def)

text \<open>
  Claim C5, as stated, fails on its second half: \<open>handleJoinRoom\<close> stores the new room
  under whatever \<open>generateRoomCode\<close> returned, without looking the code up. Room ABC123
  is active with socket 10 in it; socket 20 asks for a new room and the generator
  returns ABC123: the new room replaces the old one in the registry, while socket 10
  stays bound to the code.
\<close>

theorem room_code_collision_counterexample:
  "reachable exCreated
   \<and> rooms exCreated ''ABC123'' =
       Some \<lparr>code = ''ABC123'', players = [\<lparr>pref = 0, ws = 10, symbol = ''X'', roomCode = ''ABC123''\<rparr>],
             board = emptyBoard, currentPlayer = ''X'', gameStarted = False, gameEnded = False\<rparr>
   \<and> exCollided = fst (handleJoinRoom allOpen 20 None ''ABC123'' exCreated)
   \<and> rooms exCollided ''ABC123'' =
       Some \<lparr>code = ''ABC123'', players = [\<lparr>pref = 1, ws = 20, symbol = ''X'', roomCode = ''ABC123''\<rparr>],
             board = emptyBoard, currentPlayer = ''X'', gameStarted = False, gameEnded = False\<rparr>
   \<and> playerConnections exCollided 10 = Some \<lparr>pref = 0, ws = 10, symbol = ''X'', roomCode = ''ABC123''\<rparr>"
proof -
  have "exCollided = fst (handleJoinRoom allOpen 20 None ''ABC123'' exCreated)"
    by (simp add: exCollided_def step_def fst_onMessage fst_handleMessage)
  then show ?thesis
    using reachable_exCreated exCollided_eq by (simp add: exCreated_eq)
qed

lemma addPlayer_room:
  "\<exists>room'. rooms (fst (addPlayer rs conn rc room s)) rc = Some room'
            \<and> code room' = code room
            \<and> map ws (players room') = map ws (players room) @ [conn]"
  by (simp add: addPlayer_def Let_def)

text \<open>
  Claim C5, amended. In every reachable state each room's code is the key it is stored
  under, so no two rooms of the registry share a code. Room creation stores the new
  room under the generated code without checking it against the registry: after a join
  that creates a room, the registry holds under the generated code a room whose only
  player is the joiner, whether or not that code was in use.
\<close>

theorem room_codes_are_keys:
  assumes "reachable s"
  shows "(\<forall>rc room. rooms s rc = Some room \<longrightarrow> code room = rc)
         \<and> (\<forall>rc1 rc2 room1 room2.
               rooms s rc1 = Some room1 \<and> rooms s rc2 = Some room2 \<and> rc1 \<noteq> rc2 \<longrightarrow> code room1 \<noteq> code room2)
         \<and> (msgCode = None \<or> msgCode = Some '''' \<or> (\<exists>rc. msgCode = Some rc \<and> rooms s rc = None) \<longrightarrow>
               (\<exists>room'. rooms (fst (handleJoinRoom rs conn msgCode gen s)) gen = Some room'
                         \<and> code room' = gen \<and> map ws (players room') = [conn]))"
proof -
  have keys: "\<forall>rc room. rooms s rc = Some room \<longrightarrow> code room = rc"
    using reachable_stateInv[OF assms] by (simp add: stateInv_def)
  have create: "\<exists>room'. rooms (fst (handleJoinRoom rs conn msgCode gen s)) gen = Some room'
                         \<and> code room' = gen \<and> map ws (players room') = [conn]"
    if "msgCode = None \<or> msgCode = Some '''' \<or> (\<exists>rc. msgCode = Some rc \<and> rooms s rc = None)"
  proof -
    have "handleJoinRoom rs conn msgCode gen s
            = addPlayer rs conn gen (newRoom gen) (s\<lparr>rooms := (rooms s)(gen \<mapsto> newRoom gen)\<rparr>)"
      using that by (auto simp: handleJoinRoom_def Let_def)
    then show ?thesis
      using addPlayer_room[of rs conn gen "newRoom gen" "s\<lparr>rooms := (rooms s)(gen \<mapsto> newRoom gen)\<rparr>"]
      by (simp add: newRoom_def)
  qed
  have apart: "code room1 \<noteq> code room2"
    if "rooms s rc1 = Some room1" "rooms s rc2 = Some room2" "rc1 \<noteq> rc2" for rc1 rc2 room1 room2
  proof -
    have "code room1 = rc1" "code room2 = rc2"
      using keys that(1,2) by simp_all
    then show ?thesis using that(3) by simp
  qed
  show ?thesis
  proof (intro conjI)
    show "\<forall>rc room. rooms s rc = Some room \<longrightarrow> code room = rc"
      by (rule keys)
    show "\<forall>rc1 rc2 room1 room2.
               rooms s rc1 = Some room1 \<and> rooms s rc2 = Some room2 \<and> rc1 \<noteq> rc2 \<longrightarrow> code room1 \<noteq> code room2"
      using apart by blast
    show "msgCode = None \<or> msgCode = Some '''' \<or> (\<exists>rc. msgCode = Some rc \<and> rooms s rc = None) \<longrightarrow>
               (\<exists>room'. rooms (fst (handleJoinRoom rs conn msgCode gen s)) gen = Some room'
                         \<and> code room' = gen \<and> map ws (players room') = [conn])"
      using create by (rule impI)
  qed
qed

theorem room_codes_are_keys_witness:
  "reachable exCreated
   \<and> rooms exCreated ''ABC123'' \<noteq> None
   \<and> (\<exists>room'. rooms (fst (handleJoinRoom allOpen 20 None ''ABC123'' exCreated)) ''ABC123'' = Some room'
              \<and> code room' = ''ABC123'' \<and> map ws (players room') = [20])"
  using room_codes_are_keys[OF reachable_exCreated, of None allOpen 20 "''ABC123''"] reachable_exCreated
  by (simp add: exCreated_eq)

lemma addPlayer_binding:
  "\<exists>p' room'. playerConnections (fst (addPlayer rs conn rc room s)) conn = Some p'
      \<and> ws p' = conn \<and> roomCode p' = rc
      \<and> rooms (fst (addPlayer rs conn rc room s)) rc = Some room'
      \<and> p' \<in> set (players room')
      \<and> (\<forall>rc'. rc' \<noteq> rc \<longrightarrow> rooms (fst (addPlayer rs conn rc room s)) rc' = rooms s rc')
      \<and> (\<forall>c. c \<noteq> conn \<longrightarrow> playerConnections (fst (addPlayer rs conn rc room s)) c = playerConnections s c)"
  by (simp add: addPlayer_def Let_def)

lemma handleJoinRoom_cases:
  "(\<exists>rc room. handleJoinRoom rs conn msgCode gen s = (s, [(conn, ErrorMsg ''Room is full'')]))
   \<or> (\<exists>rc room. handleJoinRoom rs conn msgCode gen s = addPlayer rs conn rc room s)
   \<or> handleJoinRoom rs conn msgCode gen s
        = addPlayer rs conn gen (newRoom gen) (s\<lparr>rooms := (rooms s)(gen \<mapsto> newRoom gen)\<rparr>)"
  by (auto simp: handleJoinRoom_def Let_def split: option.splits)

text \<open>
  Claim C7, amended. In every reachable state a connection has at most one binding, and
  the bound player is a player of that connection. A join that is not refused binds the
  connection to a player of the room it joins, who is in that room's player list, and
  changes no other room and no other binding: the connection stays in the player list of
  any room it joined before.
\<close>

theorem join_binds_to_joined_room:
  assumes "reachable s"
  shows "(\<forall>c p. playerConnections s c = Some p \<longrightarrow> ws p = c)
         \<and> (snd (handleJoinRoom rs conn msgCode gen s) \<noteq> [(conn, ErrorMsg ''Room is full'')] \<longrightarrow>
              (\<exists>p' room'.
                  playerConnections (fst (handleJoinRoom rs conn msgCode gen s)) conn = Some p'
                  \<and> ws p' = conn
                  \<and> rooms (fst (handleJoinRoom rs conn msgCode gen s)) (roomCode p') = Some room'
                  \<and> p' \<in> set (players room')
                  \<and> (\<forall>rc. rc \<noteq> roomCode p' \<longrightarrow>
                        rooms (fst (handleJoinRoom rs conn msgCode gen s)) rc = rooms s rc)
                  \<and> (\<forall>c. c \<noteq> conn \<longrightarrow>
                        playerConnections (fst (handleJoinRoom rs conn msgCode gen s)) c = playerConnections s c)))"
proof (intro conjI impI)
  show "\<forall>c p. playerConnections s c = Some p \<longrightarrow> ws p = c"
    using reachable_stateInv[OF assms] by (simp add: stateInv_def)
next
  assume notfull: "snd (handleJoinRoom rs conn msgCode gen s) \<noteq> [(conn, ErrorMsg ''Room is full'')]"
  let ?s' = "fst (handleJoinRoom rs conn msgCode gen s)"
  from handleJoinRoom_cases[of rs conn msgCode gen s] notfull
  consider (existing) rc room where "handleJoinRoom rs conn msgCode gen s = addPlayer rs conn rc room s"
    | (created) "handleJoinRoom rs conn msgCode gen s
        = addPlayer rs conn gen (newRoom gen) (s\<lparr>rooms := (rooms s)(gen \<mapsto> newRoom gen)\<rparr>)"
    by auto
  then show "\<exists>p' room'.
                  playerConnections ?s' conn = Some p'
                  \<and> ws p' = conn
                  \<and> rooms ?s' (roomCode p') = Some room'
                  \<and> p' \<in> set (players room')
                  \<and> (\<forall>rc. rc \<noteq> roomCode p' \<longrightarrow> rooms ?s' rc = rooms s rc)
                  \<and> (\<forall>c. c \<noteq> conn \<longrightarrow> playerConnections ?s' c = playerConnections s c)"
  proof cases
    case existing
    show ?thesis
      using addPlayer_binding[of rs conn rc room s] unfolding existing by auto
  next
    case created
    show ?thesis
      using addPlayer_binding[of rs conn gen "newRoom gen" "s\<lparr>rooms := (rooms s)(gen \<mapsto> newRoom gen)\<rparr>"]
      unfolding created by auto
  qed
qed

lemma reachable_exTwice: "reachable exTwice"
  unfolding exTwice_def by (rule reachable_step[OF reachable_exCreated])

text \<open>
  Claim C7, as stated, fails: \<open>handleJoinRoom\<close> never removes the joining connection from
  a room it is already in. Socket 10 creates ABC123 and then XYZ789: it is bound to
  XYZ789 and is in the player lists of both rooms.
\<close>

theorem connection_in_two_rooms_counterexample:
  "reachable exTwice
   \<and> playerConnections exTwice 10 = Some \<lparr>pref = 1, ws = 10, symbol = ''X'', roomCode = ''XYZ789''\<rparr>
   \<and> rooms exTwice ''ABC123'' =
       Some \<lparr>code = ''ABC123'', players = [\<lparr>pref = 0, ws = 10, symbol = ''X'', roomCode = ''ABC123''\<rparr>],
             board = emptyBoard, currentPlayer = ''X'', gameStarted = False, gameEnded = False\<rparr>
   \<and> rooms exTwice ''XYZ789'' =
       Some \<lparr>code = ''XYZ789'', players = [\<lparr>pref = 1, ws = 10, symbol = ''X'', roomCode = ''XYZ789''\<rparr>],
             board = emptyBoard, currentPlayer = ''X'', gameStarted = False, gameEnded = False\<rparr>"
  using reachable_exTwice exTwice_eq by simp

theorem join_binds_to_joined_room_witness:
  "reachable exCreated
   \<and> playerConnections (fst (handleJoinRoom allOpen 10 None ''XYZ789'' exCreated)) 10
       = Some \<lparr>pref = 1, ws = 10, symbol = ''X'', roomCode = ''XYZ789''\<rparr>
   \<and> rooms (fst (handleJoinRoom allOpen 10 None ''XYZ789'' exCreated)) ''ABC123''
       = rooms exCreated ''ABC123''"
proof -
  let ?s' = "fst (handleJoinRoom allOpen 10 None ''XYZ789'' exCreated)"
  have nf: "snd (handleJoinRoom allOpen 10 None ''XYZ789'' exCreated) \<noteq> [(10, ErrorMsg ''Room is full'')]"
    unfolding exCreated_eq
    by (simp add: handleJoinRoom_def addPlayer_def newRoom_def Let_def broadcastToRoom_def)
  have bound: "playerConnections ?s' 10 = Some \<lparr>pref = 1, ws = 10, symbol = ''X'', roomCode = ''XYZ789''\<rparr>"
    unfolding exCreated_eq
    by (simp add: handleJoinRoom_def addPlayer_def newRoom_def Let_def broadcastToRoom_def)
  from join_binds_to_joined_room[OF reachable_exCreated, of allOpen 10 None "''XYZ789''"] nf
  obtain p' where p: "playerConnections ?s' 10 = Some p'"
    and other: "\<forall>rc. rc \<noteq> roomCode p' \<longrightarrow> rooms ?s' rc = rooms exCreated rc"
    by blast
  from p bound have "roomCode p' = ''XYZ789''" by auto
  with other have "rooms ?s' ''ABC123'' = rooms exCreated ''ABC123''" by simp
  then show ?thesis
    using reachable_exCreated bound by simp
qed

end
